theory Spec2Isabelle
  imports Main
begin

section \<open>Values of the host evaluator\<close>

text \<open>
  The reconciler (src/react/reconcilation.js) only inspects the class of a host value
  (\<open>instanceof\<close>) and its identity. A value is therefore its class together with the identity
  of the underlying host object; primitives carry their payload. The classes are the ones the
  file imports from values/index.js. \<open>ObjectValue\<close> stands for a concrete object that is
  neither a function nor an array; functions and arrays are object values as well, an
  \<open>AbstractObjectValue\<close> is an abstract value, and a symbol is neither.
\<close>

datatype Value =
    StringValue string
  | NumberValue int
  | BooleanValue bool
  | NullValue
  | UndefinedValue
  | SymbolValue nat
  | ECMAScriptSourceFunctionValue nat
  | BoundFunctionValue nat
  | AbstractValue nat
  | AbstractObjectValue nat
  | ArrayValue nat
  | ObjectValue nat

fun isStringValue :: "Value \<Rightarrow> bool" where
  "isStringValue (StringValue s) = True"
| "isStringValue v = False"

fun isNullValue :: "Value \<Rightarrow> bool" where
  "isNullValue NullValue = True"
| "isNullValue v = False"

fun isUndefinedValue :: "Value \<Rightarrow> bool" where
  "isUndefinedValue UndefinedValue = True"
| "isUndefinedValue v = False"

fun isSymbolValue :: "Value \<Rightarrow> bool" where
  "isSymbolValue (SymbolValue n) = True"
| "isSymbolValue v = False"

fun isECMAScriptSourceFunctionValue :: "Value \<Rightarrow> bool" where
  "isECMAScriptSourceFunctionValue (ECMAScriptSourceFunctionValue n) = True"
| "isECMAScriptSourceFunctionValue v = False"

fun isBoundFunctionValue :: "Value \<Rightarrow> bool" where
  "isBoundFunctionValue (BoundFunctionValue n) = True"
| "isBoundFunctionValue v = False"

text \<open>\<open>value instanceof AbstractValue\<close>: abstract object values are abstract values.\<close>

fun isAbstractValue :: "Value \<Rightarrow> bool" where
  "isAbstractValue (AbstractValue n) = True"
| "isAbstractValue (AbstractObjectValue n) = True"
| "isAbstractValue v = False"

fun isAbstractObjectValue :: "Value \<Rightarrow> bool" where
  "isAbstractObjectValue (AbstractObjectValue n) = True"
| "isAbstractObjectValue v = False"

fun isArrayValue :: "Value \<Rightarrow> bool" where
  "isArrayValue (ArrayValue n) = True"
| "isArrayValue v = False"

text \<open>\<open>value instanceof ObjectValue\<close>: functions and arrays are concrete objects.\<close>

fun isObjectValue :: "Value \<Rightarrow> bool" where
  "isObjectValue (ObjectValue n) = True"
| "isObjectValue (ArrayValue n) = True"
| "isObjectValue (ECMAScriptSourceFunctionValue n) = True"
| "isObjectValue (BoundFunctionValue n) = True"
| "isObjectValue v = False"

text \<open>The primitive ("terminal") values of \<open>_resolveDeeply\<close>.\<close>

fun isTerminalValue :: "Value \<Rightarrow> bool" where
  "isTerminalValue (StringValue s) = True"
| "isTerminalValue (NumberValue n) = True"
| "isTerminalValue (BooleanValue b) = True"
| "isTerminalValue NullValue = True"
| "isTerminalValue UndefinedValue = True"
| "isTerminalValue v = False"

section \<open>Errors and completions\<close>

text \<open>
  Everything the file throws or catches: the six classes of react/errors.js, the
  \<open>FatalError\<close> of errors.js, a thrown \<open>Completion\<close> (carrying the thrown host value), the
  error of a failed \<open>invariant\<close> (its name is "Invariant Violation"), and any other
  JavaScript error.
\<close>

datatype error =
    InvariantViolation string
  | ReconcilerFatalError string nat
  | UnsupportedSideEffect string
  | DoNotOptimize string
  | Completion Value
  | NewComponentTreeBranch nat
  | ExpectedBailOut string
  | FatalError string
  | SimpleClassBailOut string
  | OtherError string

fun error_message :: "error \<Rightarrow> string" where
  "error_message (InvariantViolation m) = m"
| "error_message (ReconcilerFatalError m n) = m"
| "error_message (UnsupportedSideEffect m) = m"
| "error_message (DoNotOptimize m) = m"
| "error_message (Completion v) = []"
| "error_message (NewComponentTreeBranch n) = []"
| "error_message (ExpectedBailOut m) = m"
| "error_message (FatalError m) = m"
| "error_message (SimpleClassBailOut m) = m"
| "error_message (OtherError m) = m"

text \<open>
  A call returns a value, throws, or does not come back (user code that loops, a component
  that renders itself): \<open>Diverges\<close> is what a recursion reports when its fuel is used up.
\<close>

datatype 'a completion = Returns 'a | Throws error | Diverges

type_synonym ('s, 'a) M = "'s \<Rightarrow> 'a completion \<times> 's"

definition returnM :: "'a \<Rightarrow> ('s, 'a) M" where
  "returnM a = (\<lambda>s. (Returns a, s))"

definition throwM :: "error \<Rightarrow> ('s, 'a) M" where
  "throwM e = (\<lambda>s. (Throws e, s))"

definition divergeM :: "('s, 'a) M" where
  "divergeM = (\<lambda>s. (Diverges, s))"

definition bindM :: "('s, 'a) M \<Rightarrow> ('a \<Rightarrow> ('s, 'b) M) \<Rightarrow> ('s, 'b) M" where
  "bindM m f = (\<lambda>s. case m s of
      (Returns a, s') \<Rightarrow> f a s'
    | (Throws e, s') \<Rightarrow> (Throws e, s')
    | (Diverges, s') \<Rightarrow> (Diverges, s'))"

text \<open>\<open>try { m } catch (error) { handler(error) }\<close>: the state is the one at the throw.\<close>

definition tryCatch :: "('s, 'a) M \<Rightarrow> (error \<Rightarrow> ('s, 'a) M) \<Rightarrow> ('s, 'a) M" where
  "tryCatch m handler = (\<lambda>s. case m s of
      (Returns a, s') \<Rightarrow> (Returns a, s')
    | (Throws e, s') \<Rightarrow> handler e s'
    | (Diverges, s') \<Rightarrow> (Diverges, s'))"

definition getsM :: "('s \<Rightarrow> 'a) \<Rightarrow> ('s, 'a) M" where
  "getsM f = (\<lambda>s. (Returns (f s), s))"

definition modifyM :: "('s \<Rightarrow> 's) \<Rightarrow> ('s, unit) M" where
  "modifyM f = (\<lambda>s. (Returns (), f s))"

text \<open>\<open>invariant(condition, message)\<close> of invariant.js.\<close>

definition invariant :: "bool \<Rightarrow> string \<Rightarrow> ('s, unit) M" where
  "invariant condition m = (if condition then returnM () else throwM (InvariantViolation m))"

section \<open>The reconciler's data\<close>

datatype ReactEvaluatedNodeStatus =
  NORMAL | NEW_TREE | INLINED | BAIL_OUT | RENDER_PROPS | FORWARD_REF

text \<open>
  A \<open>ReactEvaluatedNode\<close> is a mutable object that several places hold at once (the tree
  under construction, the root memoization table, a thrown \<open>NewComponentTreeBranch\<close>), and
  \<open>hasEvaluatedRootNode\<close> makes two nodes share one \<open>children\<close> array. Nodes and
  arrays therefore live in a store: a node is named by a number, and its \<open>children\<close> field
  holds the number of an array of node numbers.
\<close>

record ReactEvaluatedNode =
  node_children :: nat
  node_message :: string
  node_name :: string
  node_status :: ReactEvaluatedNodeStatus

datatype ComponentTreeStatus = SIMPLE | COMPLEX

record ComponentTreeState =
  componentType :: "Value option"
  contextTypes :: "string set"
  deadEnds :: int
  status :: ComponentTreeStatus
  contextNodeReferences :: "Value \<rightharpoonup> int"

text \<open>The captured effects of one evaluation: its result and the host state it ended in.\<close>

datatype 'r Effects = Effects Value 'r

record 'r OptimizedClosure =
  oc_evaluatedNode :: nat
  oc_func :: Value
  oc_nestedEffects :: "'r Effects list"
  oc_componentType :: "Value option"
  oc_context :: "Value option"

record BranchReactComponentTree =
  br_context :: "Value option"
  br_evaluatedNode :: nat
  br_props :: "Value option"
  br_rootValue :: Value

record ReactStatistics =
  optimizedTrees :: int
  optimizedNestedClosures :: int
  componentsEvaluated :: int
  inlinedComponents :: int

text \<open>
  The fields of the \<open>Reconciler\<close> class, the store of report nodes, and the
  \<open>$BailOutReason\<close> field that \<open>_assignBailOutMessage\<close> writes on element objects
  (one map for the field, from the element to its message).
\<close>

record 'r Reconciler =
  realm :: 'r
  statistics :: ReactStatistics
  componentTreeState :: ComponentTreeState
  alreadyEvaluatedRootNodes :: "Value \<rightharpoonup> nat"
  alreadyEvaluatedNestedClosures :: "Value set"
  nestedOptimizedClosures :: "'r OptimizedClosure list"
  branchedComponentTrees :: "BranchReactComponentTree list"
  nodes :: "nat \<Rightarrow> ReactEvaluatedNode"
  childArrays :: "nat \<Rightarrow> nat list"
  nextNode :: nat
  bailOutReason :: "Value \<rightharpoonup> string"

section \<open>The interface to the host evaluator\<close>

text \<open>
  The realm, utils.js, components.js and branching.js are not part of the file. The model
  takes them as a parameter: a record of functions over the host state \<open>'r\<close>. A read
  returns a value; an operation that can run user code, allocate or fail returns a
  completion and the new host state. Reads and operations that take and return host values
  go through two tables, indexed by the name of the function in the source.
\<close>

datatype HostPredicate =
    DoNotOptimizeComponent
  | ValueIsKnownReactAbstraction
  | ValueIsClassComponent
  | ValueIsLegacyCreateClassComponent
  | ValueIsFactoryClassComponent
  | IsReactElement
  | IsConditional
  | IsFinalDefined
  | HasIntrinsicName
  | IsIntrinsicAndHasWidenedNumericProperty
  | ValuesIsTop
  | HasCall
  | IsSimpleObject
  | IsPartialObject
  | PropsWithNoPartialKeyOrRef

datatype HostOperation =
    HostGet string
  | GetValueFromFunctionCall
  | InternalCall
  | CreateSimpleClassInstance
  | CreateClassInstanceForFirstRenderOnly
  | ApplyGetDerivedStateFromProps
  | GetInitialProps
  | GetInitialContext
  | SanitizeReactElementForFirstRenderOnly
  | FlattenChildren
  | CreateInternalReactElement
  | NewObjectValue
  | PropertiesSet string
  | MakeSimple
  | MakePartial
  | FlagPropsWithNoPartialKeyOrRef
  | MakeFinal
  | CreateTemporalFromBuildFunction
  | CreateAbstractObject string
  | CreateAbstractArgument string
  | CreateArray
  | WithBaseObject
  | HandleError string

record ClassComponentMetadata =
  instanceProperties :: "string set"
  instanceSymbols :: "Value set"

text \<open>A hint of \<open>realm.react.abstractHints\<close>: a plain string, or the library call that made the value.\<close>

datatype ReactHint =
    StringHint string
  | Hint (hint_object: Value) (hint_propertyName: string) (hint_args: "Value list")
      (hint_firstRenderValue: "Value option")

fun reactHint_object :: "ReactHint \<Rightarrow> Value option" where
  "reactHint_object (StringHint s) = None"
| "reactHint_object (Hint ob p a f) = Some ob"

fun reactHint_propertyName :: "ReactHint \<Rightarrow> string option" where
  "reactHint_propertyName (StringHint s) = None"
| "reactHint_propertyName (Hint ob p a f) = Some p"

fun reactHint_args :: "ReactHint \<Rightarrow> Value list" where
  "reactHint_args (StringHint s) = []"
| "reactHint_args (Hint ob p a f) = a"

fun reactHint_firstRenderValue :: "ReactHint \<Rightarrow> Value option" where
  "reactHint_firstRenderValue (StringHint s) = None"
| "reactHint_firstRenderValue (Hint ob p a f) = f"

record ArrayHint =
  ah_func :: Value
  ah_thisVal :: "Value option"

datatype BabelNode = Identifier string | OtherPattern

record 'r Host =
  firstRenderOnly :: bool
  optimizeNestedFunctions :: bool
  test :: "HostPredicate \<Rightarrow> 'r \<Rightarrow> Value \<Rightarrow> bool"
  perform :: "HostOperation \<Rightarrow> 'r \<Rightarrow> Value list \<Rightarrow> Value completion \<times> 'r"
  h_getProperty :: "'r \<Rightarrow> Value \<Rightarrow> string \<Rightarrow> Value"
  h_propertiesHas :: "'r \<Rightarrow> Value \<Rightarrow> string \<Rightarrow> bool"
  h_hasDescriptor :: "'r \<Rightarrow> Value \<Rightarrow> string \<Rightarrow> bool"
  h_setDescriptorValue :: "'r \<Rightarrow> Value \<Rightarrow> string \<Rightarrow> Value \<Rightarrow> 'r"
  h_enumerableProperties :: "'r \<Rightarrow> Value \<Rightarrow> string list"
  h_valuesElements :: "'r \<Rightarrow> Value \<Rightarrow> Value list"
  h_args :: "'r \<Rightarrow> Value \<Rightarrow> Value list"
  h_arrayElements :: "'r \<Rightarrow> Value \<Rightarrow> Value list"
  h_abstractHints :: "'r \<Rightarrow> Value \<Rightarrow> ReactHint option"
  h_arrayHints :: "'r \<Rightarrow> Value \<Rightarrow> ArrayHint option"
  h_fbLibraries :: "'r \<Rightarrow> string \<Rightarrow> Value option"
  h_getReactSymbol :: "'r \<Rightarrow> string \<Rightarrow> Value"
  h_getComponentName :: "'r \<Rightarrow> Value \<Rightarrow> string"
  h_getLocationFromValue :: "'r \<Rightarrow> Value \<Rightarrow> string"
  h_hasGenerator :: "'r \<Rightarrow> bool"
  h_getComponentTypeFromRootValue :: "'r \<Rightarrow> Value \<Rightarrow> Value option completion \<times> 'r"
  h_classComponentMetadata :: "'r \<Rightarrow> Value \<Rightarrow> ClassComponentMetadata option"
  h_setClassComponentMetadata :: "'r \<Rightarrow> Value \<Rightarrow> ClassComponentMetadata \<Rightarrow> 'r"
  h_evaluateClassConstructor ::
    "'r \<Rightarrow> Value \<Rightarrow> Value \<Rightarrow> Value \<Rightarrow> ClassComponentMetadata completion \<times> 'r"
  h_createClassInstance ::
    "'r \<Rightarrow> Value \<Rightarrow> Value \<Rightarrow> Value \<Rightarrow> ClassComponentMetadata \<Rightarrow> Value completion \<times> 'r"
  h_boundThis :: "'r \<Rightarrow> Value \<Rightarrow> Value"
  h_boundTargetFunction :: "'r \<Rightarrow> Value \<Rightarrow> Value"
  h_getLength :: "'r \<Rightarrow> Value \<Rightarrow> int option"
  h_formalParameters :: "'r \<Rightarrow> Value \<Rightarrow> BabelNode list option"
  h_joinEffects :: "'r \<Rightarrow> Value \<Rightarrow> 'r Effects \<Rightarrow> 'r Effects \<Rightarrow> Value completion \<times> 'r"
  h_getValueWithBranchingLogicApplied ::
    "'r \<Rightarrow> Value \<Rightarrow> Value \<Rightarrow> Value \<Rightarrow> Value completion \<times> 'r"
  h_evaluateWithNestedParentEffects :: "'r \<Rightarrow> 'r Effects list \<Rightarrow> 'r"

text \<open>Lifting the host's functions to the reconciler's state.\<close>

definition hostRead :: "('r \<Rightarrow> 'a) \<Rightarrow> (('r, 'z) Reconciler_scheme, 'a) M" where
  "hostRead f = (\<lambda>s. (Returns (f (realm s)), s))"

definition hostRun :: "('r \<Rightarrow> 'a completion \<times> 'r) \<Rightarrow> (('r, 'z) Reconciler_scheme, 'a) M" where
  "hostRun f = (\<lambda>s. case f (realm s) of (c, r') \<Rightarrow> (c, s\<lparr>realm := r'\<rparr>))"

definition hostWrite :: "('r \<Rightarrow> 'r) \<Rightarrow> (('r, 'z) Reconciler_scheme, unit) M" where
  "hostWrite f = (\<lambda>s. (Returns (), s\<lparr>realm := f (realm s)\<rparr>))"

definition hostTest :: "'r Host \<Rightarrow> HostPredicate \<Rightarrow> Value \<Rightarrow> ('r Reconciler, bool) M" where
  "hostTest h p v = hostRead (\<lambda>r. test h p r v)"

definition hostOp :: "'r Host \<Rightarrow> HostOperation \<Rightarrow> Value list \<Rightarrow> ('r Reconciler, Value) M" where
  "hostOp h op vs = hostRun (\<lambda>r. perform h op r vs)"

definition getProperty :: "'r Host \<Rightarrow> Value \<Rightarrow> string \<Rightarrow> ('r Reconciler, Value) M" where
  "getProperty h ob p = hostRead (\<lambda>r. h_getProperty h r ob p)"

definition Get :: "'r Host \<Rightarrow> Value \<Rightarrow> string \<Rightarrow> ('r Reconciler, Value) M" where
  "Get h ob p = hostOp h (HostGet p) [ob]"

definition getValueFromFunctionCall ::
  "'r Host \<Rightarrow> Value \<Rightarrow> Value \<Rightarrow> Value list \<Rightarrow> ('r Reconciler, Value) M" where
  "getValueFromFunctionCall h func thisArg args = hostOp h GetValueFromFunctionCall (func # thisArg # args)"

definition getComponentName :: "'r Host \<Rightarrow> Value \<Rightarrow> ('r Reconciler, string) M" where
  "getComponentName h v = hostRead (\<lambda>r. h_getComponentName h r v)"

section \<open>Report nodes\<close>

text \<open>
  Modelled from the spec: \<open>createReactEvaluatedNode\<close> of utils.js, which is not in the file.
  The spec's data model gives a node a status tag, a display name, an optional message and an
  ordered list of children; a new node has the given status and name, no message and a new,
  empty list of children.
\<close>

definition createReactEvaluatedNode ::
  "ReactEvaluatedNodeStatus \<Rightarrow> string \<Rightarrow> ('r Reconciler, nat) M" where
  "createReactEvaluatedNode st nm = (\<lambda>s.
     (Returns (nextNode s),
      s\<lparr>nodes := (nodes s)(nextNode s :=
            \<lparr>node_children = nextNode s, node_message = [], node_name = nm, node_status = st\<rparr>),
        childArrays := (childArrays s)(nextNode s := []),
        nextNode := Suc (nextNode s)\<rparr>))"

text \<open>\<open>evaluatedNode.children.push(child)\<close>\<close>

definition pushChild :: "nat \<Rightarrow> nat \<Rightarrow> ('r Reconciler, unit) M" where
  "pushChild evaluatedNode child = modifyM (\<lambda>s.
     s\<lparr>childArrays := (childArrays s)(node_children (nodes s evaluatedNode) :=
          childArrays s (node_children (nodes s evaluatedNode)) @ [child])\<rparr>)"

definition setNodeStatus :: "nat \<Rightarrow> ReactEvaluatedNodeStatus \<Rightarrow> ('r Reconciler, unit) M" where
  "setNodeStatus n st = modifyM (\<lambda>s. s\<lparr>nodes := (nodes s)(n := (nodes s n)\<lparr>node_status := st\<rparr>)\<rparr>)"

definition setNodeMessage :: "nat \<Rightarrow> string \<Rightarrow> ('r Reconciler, unit) M" where
  "setNodeMessage n m = modifyM (\<lambda>s. s\<lparr>nodes := (nodes s)(n := (nodes s n)\<lparr>node_message := m\<rparr>)\<rparr>)"


section \<open>Counters and queues\<close>

definition incDeadEnds :: "('r Reconciler, unit) M" where
  "incDeadEnds = modifyM (\<lambda>s. s\<lparr>componentTreeState :=
     (componentTreeState s)\<lparr>deadEnds := deadEnds (componentTreeState s) + 1\<rparr>\<rparr>)"

definition incComponentsEvaluated :: "('r Reconciler, unit) M" where
  "incComponentsEvaluated = modifyM (\<lambda>s. s\<lparr>statistics :=
     (statistics s)\<lparr>componentsEvaluated := componentsEvaluated (statistics s) + 1\<rparr>\<rparr>)"

definition incInlinedComponents :: "('r Reconciler, unit) M" where
  "incInlinedComponents = modifyM (\<lambda>s. s\<lparr>statistics :=
     (statistics s)\<lparr>inlinedComponents := inlinedComponents (statistics s) + 1\<rparr>\<rparr>)"

definition incOptimizedTrees :: "('r Reconciler, unit) M" where
  "incOptimizedTrees = modifyM (\<lambda>s. s\<lparr>statistics :=
     (statistics s)\<lparr>optimizedTrees := optimizedTrees (statistics s) + 1\<rparr>\<rparr>)"

definition incOptimizedNestedClosures :: "('r Reconciler, unit) M" where
  "incOptimizedNestedClosures = modifyM (\<lambda>s. s\<lparr>statistics :=
     (statistics s)\<lparr>optimizedNestedClosures := optimizedNestedClosures (statistics s) + 1\<rparr>\<rparr>)"

definition createComponentTreeState :: ComponentTreeState where
  "createComponentTreeState =
     \<lparr>componentType = None, contextTypes = {}, deadEnds = 0, status = SIMPLE,
      contextNodeReferences = Map.empty\<rparr>"

definition clearComponentTreeState :: "('r Reconciler, unit) M" where
  "clearComponentTreeState = modifyM (\<lambda>s. s\<lparr>componentTreeState := createComponentTreeState\<rparr>)"

text \<open>The constructor of the class, over a given host state and an empty store of nodes.\<close>

definition newReconciler :: "'r \<Rightarrow> 'r Reconciler" where
  "newReconciler r =
     \<lparr>realm = r,
      statistics = \<lparr>optimizedTrees = 0, optimizedNestedClosures = 0, componentsEvaluated = 0,
        inlinedComponents = 0\<rparr>,
      componentTreeState = createComponentTreeState,
      alreadyEvaluatedRootNodes = Map.empty,
      alreadyEvaluatedNestedClosures = {},
      nestedOptimizedClosures = [],
      branchedComponentTrees = [],
      nodes = (\<lambda>n. \<lparr>node_children = n, node_message = [], node_name = [], node_status = NORMAL\<rparr>),
      childArrays = (\<lambda>n. []),
      nextNode = 0,
      bailOutReason = Map.empty\<rparr>"

definition queueOptimizedClosure ::
  "'r Host \<Rightarrow> Value \<Rightarrow> nat \<Rightarrow> Value option \<Rightarrow> Value option \<Rightarrow> ('r Reconciler, unit) M" where
  "queueOptimizedClosure h func evaluatedNode componentType' context =
     (if optimizeNestedFunctions h then
        modifyM (\<lambda>s. s\<lparr>nestedOptimizedClosures := nestedOptimizedClosures s @
          [\<lparr>oc_evaluatedNode = evaluatedNode, oc_func = func, oc_nestedEffects = [],
            oc_componentType = componentType', oc_context = context\<rparr>]\<rparr>)
      else returnM ())"

definition hasEvaluatedRootNode :: "Value \<Rightarrow> nat \<Rightarrow> ('r Reconciler, bool) M" where
  "hasEvaluatedRootNode componentType' evaluateNode = (\<lambda>s.
     case alreadyEvaluatedRootNodes s componentType' of
       Some alreadyEvaluatedNode \<Rightarrow>
         (Returns True,
          s\<lparr>nodes := (nodes s)(evaluateNode := (nodes s evaluateNode)
              \<lparr>node_children := node_children (nodes s alreadyEvaluatedNode),
               node_name := node_name (nodes s alreadyEvaluatedNode),
               node_status := node_status (nodes s alreadyEvaluatedNode)\<rparr>)\<rparr>)
     | None \<Rightarrow> (Returns False, s))"

definition hasEvaluatedNestedClosure :: "Value \<Rightarrow> ('r Reconciler, bool) M" where
  "hasEvaluatedNestedClosure func = getsM (\<lambda>s. func \<in> alreadyEvaluatedNestedClosures s)"

definition queueNewComponentTree ::
  "'r Host \<Rightarrow> Value \<Rightarrow> nat \<Rightarrow> Value option \<Rightarrow> Value option \<Rightarrow> ('r Reconciler, unit) M" where
  "queueNewComponentTree h rootValue evaluatedNode props context =
     (if isSymbolValue rootValue then returnM ()
      else
        bindM (invariant (isECMAScriptSourceFunctionValue rootValue \<or> isAbstractValue rootValue) []) (\<lambda>_.
        bindM incDeadEnds (\<lambda>_.
        bindM (hostRun (\<lambda>r. h_getComponentTypeFromRootValue h r rootValue)) (\<lambda>componentType'.
          case componentType' of
            None \<Rightarrow> returnM ()
          | Some ct \<Rightarrow>
              bindM (hasEvaluatedRootNode ct evaluatedNode) (\<lambda>evaluated.
                if \<not> evaluated then
                  modifyM (\<lambda>s. s\<lparr>branchedComponentTrees := branchedComponentTrees s @
                    [\<lparr>br_context = context, br_evaluatedNode = evaluatedNode, br_props = props,
                      br_rootValue = rootValue\<rparr>]\<rparr>)
                else returnM ())))))"

text \<open>
  \<open>_assignBailOutMessage\<close>: the message gets the prefix "Bail-out: " and is appended, after
  ", ", to a message the element already carries.
\<close>

definition assignBailOutMessage :: "Value \<Rightarrow> string \<Rightarrow> ('r Reconciler, unit) M" where
  "assignBailOutMessage reactElement m = modifyM (\<lambda>s.
     case bailOutReason s reactElement of
       Some reason \<Rightarrow>
         s\<lparr>bailOutReason := (bailOutReason s)(reactElement \<mapsto> reason @ '', '' @ (''Bail-out: '' @ m))\<rparr>
     | None \<Rightarrow> s\<lparr>bailOutReason := (bailOutReason s)(reactElement \<mapsto> ''Bail-out: '' @ m)\<rparr>)"

section \<open>Context providers: the current value and the reference count\<close>

definition setContextCurrentValue :: "'r Host \<Rightarrow> Value \<Rightarrow> Value \<Rightarrow> ('r Reconciler, unit) M" where
  "setContextCurrentValue h contextObject val =
     bindM (hostTest h ValuesIsTop contextObject) (\<lambda>isTop.
     bindM (if isAbstractObjectValue contextObject \<and> \<not> isTop then
              bindM (hostRead (\<lambda>r. h_valuesElements h r contextObject)) (\<lambda>elements.
                case elements of
                  first # rest \<Rightarrow> returnM first
                | [] \<Rightarrow> bindM (invariant False ''TODO: should we hit this?'') (\<lambda>_. returnM contextObject))
            else returnM contextObject) (\<lambda>contextObject.
     if \<not> isObjectValue contextObject then
       throwM (ExpectedBailOut ''cannot set currentValue on an abstract context consumer'')
     else
       bindM (hostRead (\<lambda>r. h_hasDescriptor h r contextObject ''currentValue'')) (\<lambda>hasDescriptor.
         if hasDescriptor then hostWrite (\<lambda>r. h_setDescriptorValue h r contextObject ''currentValue'' val)
         else invariant False ''setContextCurrentValue failed to set the currentValue'')))"

text \<open>\<open>!references\<close> holds for a missing entry and for \<open>0\<close>.\<close>

definition decremementReferenceForContextNode :: "Value \<Rightarrow> ('r Reconciler, unit) M" where
  "decremementReferenceForContextNode contextNode = modifyM (\<lambda>s.
     s\<lparr>componentTreeState := (componentTreeState s)\<lparr>contextNodeReferences :=
        (contextNodeReferences (componentTreeState s))(contextNode \<mapsto>
          (case contextNodeReferences (componentTreeState s) contextNode of
             None \<Rightarrow> 0
           | Some references \<Rightarrow> if references = 0 then 0 else references - 1))\<rparr>\<rparr>)"

definition incremementReferenceForContextNode :: "Value \<Rightarrow> ('r Reconciler, unit) M" where
  "incremementReferenceForContextNode contextNode = modifyM (\<lambda>s.
     s\<lparr>componentTreeState := (componentTreeState s)\<lparr>contextNodeReferences :=
        (contextNodeReferences (componentTreeState s))(contextNode \<mapsto>
          (case contextNodeReferences (componentTreeState s) contextNode of
             None \<Rightarrow> 1
           | Some references \<Rightarrow> if references = 0 then 1 else references + 1))\<rparr>\<rparr>)"

definition hasReferenceForContextNode :: "Value \<Rightarrow> ('r Reconciler, bool) M" where
  "hasReferenceForContextNode contextNode = getsM (\<lambda>s.
     case contextNodeReferences (componentTreeState s) contextNode of
       None \<Rightarrow> False
     | Some references \<Rightarrow> if references = 0 then False else references > 0)"

text \<open>The count a context object has: a missing entry counts as \<open>0\<close>.\<close>

definition referenceCount :: "'r Reconciler \<Rightarrow> Value \<Rightarrow> int" where
  "referenceCount s contextNode =
     (case contextNodeReferences (componentTreeState s) contextNode of None \<Rightarrow> 0 | Some n \<Rightarrow> n)"

section \<open>Searching a value for further component trees\<close>

datatype BranchStatusEnum = ROOT | NO_BRANCH | NEW_BRANCH | BRANCH

datatype TreatFunctionsAs = NORMAL_FUNCTIONS | NESTED_CLOSURES | FUNCTIONAL_COMPONENTS

primrec forEachM :: "'a list \<Rightarrow> ('a \<Rightarrow> ('s, unit) M) \<Rightarrow> ('s, unit) M" where
  "forEachM [] f = returnM ()"
| "forEachM (x # xs) f = bindM (f x) (\<lambda>_. forEachM xs f)"

text \<open>The three places that report a \<open>NEW_TREE\<close> child and queue the value as a new root.\<close>

definition reportNewTree :: "'r Host \<Rightarrow> Value \<Rightarrow> nat \<Rightarrow> ('r Reconciler, unit) M" where
  "reportNewTree h val evaluatedNode =
     bindM (getComponentName h val) (\<lambda>nm.
     bindM (createReactEvaluatedNode NEW_TREE nm) (\<lambda>evaluatedChildNode.
     bindM (pushChild evaluatedNode evaluatedChildNode) (\<lambda>_.
     queueNewComponentTree h val evaluatedChildNode None None)))"

definition findReactComponentTrees_body ::
  "'r Host \<Rightarrow> (Value \<Rightarrow> nat \<Rightarrow> TreatFunctionsAs \<Rightarrow> Value option \<Rightarrow> Value option \<Rightarrow> ('r Reconciler, unit) M)
   \<Rightarrow> Value \<Rightarrow> nat \<Rightarrow> TreatFunctionsAs \<Rightarrow> Value option \<Rightarrow> Value option \<Rightarrow> ('r Reconciler, unit) M" where
  "findReactComponentTrees_body h rec val evaluatedNode treatFunctionsAs componentType' context =
     (if isAbstractValue val then
        bindM (hostRead (\<lambda>r. h_args h r val)) (\<lambda>args.
          if args \<noteq> [] then
            forEachM args (\<lambda>arg. rec arg evaluatedNode treatFunctionsAs componentType' context)
          else incDeadEnds)
      else
        bindM (hostTest h ValueIsKnownReactAbstraction val) (\<lambda>known.
        if known then reportNewTree h val evaluatedNode
        else if isECMAScriptSourceFunctionValue val \<or> isBoundFunctionValue val then
          bindM (hostTest h ValueIsClassComponent val) (\<lambda>isClass.
            if isClass \<or> treatFunctionsAs = FUNCTIONAL_COMPONENTS then reportNewTree h val evaluatedNode
            else if treatFunctionsAs = NESTED_CLOSURES then
              bindM (invariant (componentType' \<noteq> None \<and> context \<noteq> None) []) (\<lambda>_.
              queueOptimizedClosure h val evaluatedNode componentType' context)
            else returnM ())
        else if isObjectValue val then
          bindM (hostTest h IsReactElement val) (\<lambda>isElement.
            if isElement then
              bindM (getProperty h val ''type'') (\<lambda>typeValue.
              bindM (getProperty h val ''ref'') (\<lambda>ref.
              bindM (getProperty h val ''props'') (\<lambda>props.
              bindM (hostTest h ValueIsKnownReactAbstraction typeValue) (\<lambda>knownType.
              bindM (if knownType \<or> isECMAScriptSourceFunctionValue typeValue
                     then reportNewTree h typeValue evaluatedNode else returnM ()) (\<lambda>_.
              bindM (rec ref evaluatedNode treatFunctionsAs componentType' context) (\<lambda>_.
              rec props evaluatedNode treatFunctionsAs componentType' context))))))
            else
              bindM (hostRead (\<lambda>r. h_enumerableProperties h r val)) (\<lambda>propNames.
              forEachM propNames (\<lambda>propName.
                bindM (getProperty h val propName) (\<lambda>propValue.
                rec propValue evaluatedNode treatFunctionsAs componentType' context))))
        else returnM ()))"

text \<open>
  The search follows the object graph of the host, which may be cyclic: the recursion is
  bounded by fuel, and a search that uses it up does not return.
\<close>

primrec findReactComponentTrees ::
  "'r Host \<Rightarrow> nat \<Rightarrow> Value \<Rightarrow> nat \<Rightarrow> TreatFunctionsAs \<Rightarrow> Value option \<Rightarrow> Value option
   \<Rightarrow> ('r Reconciler, unit) M" where
  "findReactComponentTrees h 0 = (\<lambda>val evaluatedNode treatFunctionsAs componentType' context. divergeM)"
| "findReactComponentTrees h (Suc n) = findReactComponentTrees_body h (findReactComponentTrees h n)"

section \<open>Class and function components\<close>

definition resolveComplexClassComponent ::
  "'r Host \<Rightarrow> Value \<Rightarrow> Value \<Rightarrow> Value \<Rightarrow> ClassComponentMetadata \<Rightarrow> BranchStatusEnum \<Rightarrow> nat
   \<Rightarrow> ('r Reconciler, Value) M" where
  "resolveComplexClassComponent h componentType' props context classMetadata branchStatus evaluatedNode =
     bindM (if branchStatus \<noteq> ROOT then
              bindM (getsM (\<lambda>s. alreadyEvaluatedRootNodes s componentType')) (\<lambda>evaluatedComplexNode.
              bindM (getsM (\<lambda>s. status (componentTreeState s))) (\<lambda>treeStatus.
              bindM (getsM (\<lambda>s. case evaluatedComplexNode of
                                   None \<Rightarrow> False
                                 | Some n \<Rightarrow> node_status (nodes s n) \<noteq> RENDER_PROPS)) (\<lambda>notRenderProps.
                if branchStatus = NO_BRANCH \<and> treeStatus = SIMPLE \<and> evaluatedComplexNode \<noteq> None
                   \<and> notRenderProps then
                  modifyM (\<lambda>s. s\<lparr>componentTreeState :=
                    (componentTreeState s)\<lparr>componentType := Some componentType'\<rparr>\<rparr>)
                else
                  bindM (queueNewComponentTree h componentType' evaluatedNode None None) (\<lambda>_.
                  bindM (setNodeStatus evaluatedNode NEW_TREE) (\<lambda>_.
                  throwM (NewComponentTreeBranch evaluatedNode))))))
            else returnM ()) (\<lambda>_.
     bindM (modifyM (\<lambda>s. s\<lparr>componentTreeState := (componentTreeState s)\<lparr>status := COMPLEX\<rparr>\<rparr>)) (\<lambda>_.
     bindM (hostRun (\<lambda>r. h_createClassInstance h r componentType' props context classMetadata)) (\<lambda>instance.
     bindM (Get h instance ''render'') (\<lambda>renderMethod.
     bindM (invariant (isECMAScriptSourceFunctionValue renderMethod) []) (\<lambda>_.
     getValueFromFunctionCall h renderMethod instance [])))))"

definition resolveSimpleClassComponent ::
  "'r Host \<Rightarrow> Value \<Rightarrow> Value \<Rightarrow> Value \<Rightarrow> BranchStatusEnum \<Rightarrow> nat \<Rightarrow> ('r Reconciler, Value) M" where
  "resolveSimpleClassComponent h componentType' props context branchStatus evaluatedNode =
     bindM (hostOp h CreateSimpleClassInstance [componentType', props, context]) (\<lambda>instance.
     bindM (Get h instance ''render'') (\<lambda>renderMethod.
     bindM (invariant (isECMAScriptSourceFunctionValue renderMethod) []) (\<lambda>_.
     getValueFromFunctionCall h renderMethod instance [])))"

definition resolveFunctionalComponent ::
  "'r Host \<Rightarrow> Value \<Rightarrow> Value \<Rightarrow> Value \<Rightarrow> nat \<Rightarrow> ('r Reconciler, Value) M" where
  "resolveFunctionalComponent h componentType' props context evaluatedNode =
     getValueFromFunctionCall h componentType' UndefinedValue [props, context]"

definition getClassComponentMetadata ::
  "'r Host \<Rightarrow> Value \<Rightarrow> Value \<Rightarrow> Value \<Rightarrow> ('r Reconciler, ClassComponentMetadata) M" where
  "getClassComponentMetadata h componentType' props context =
     bindM (hostRead (\<lambda>r. h_classComponentMetadata h r componentType')) (\<lambda>known.
       case known of
         Some classMetadata \<Rightarrow> returnM classMetadata
       | None \<Rightarrow>
           bindM (hostRun (\<lambda>r. h_evaluateClassConstructor h r componentType' props context)) (\<lambda>classMetadata.
           bindM (hostWrite (\<lambda>r. h_setClassComponentMetadata h r componentType' classMetadata)) (\<lambda>_.
           returnM classMetadata)))"

text \<open>
  \<open>_resolveClassComponent\<close>: the simple heuristics first when the constructor assigns nothing
  to \<open>this\<close>; a \<open>SimpleClassBailOut\<close> leaves \<open>value\<close> undefined and the complex path
  takes over, any other error is thrown again.
\<close>

definition resolveClassComponent ::
  "'r Host \<Rightarrow> Value \<Rightarrow> Value \<Rightarrow> Value \<Rightarrow> BranchStatusEnum \<Rightarrow> nat \<Rightarrow> ('r Reconciler, Value) M" where
  "resolveClassComponent h componentType' props context branchStatus evaluatedNode =
     bindM (getClassComponentMetadata h componentType' props context) (\<lambda>classMetadata.
     bindM (if instanceProperties classMetadata = {} \<and> instanceSymbols classMetadata = {} then
              tryCatch
                (bindM (resolveSimpleClassComponent h componentType' props context branchStatus evaluatedNode)
                   (\<lambda>val. returnM (Some val)))
                (\<lambda>error. case error of
                   SimpleClassBailOut m \<Rightarrow> returnM None
                 | _ \<Rightarrow> throwM error)
            else returnM None) (\<lambda>val.
       case val of
         None \<Rightarrow> resolveComplexClassComponent h componentType' props context classMetadata branchStatus
                   evaluatedNode
       | Some v \<Rightarrow> returnM v))"

definition resolveClassComponentForFirstRenderOnly ::
  "'r Host \<Rightarrow> Value \<Rightarrow> Value \<Rightarrow> Value \<Rightarrow> BranchStatusEnum \<Rightarrow> nat \<Rightarrow> ('r Reconciler, Value) M" where
  "resolveClassComponentForFirstRenderOnly h componentType' props context branchStatus evaluatedNode =
     bindM (hostOp h CreateClassInstanceForFirstRenderOnly [componentType', props, context]) (\<lambda>instance.
     bindM (Get h componentType' ''getDerivedStateFromProps'') (\<lambda>getDerivedStateFromProps.
     bindM (Get h instance ''getSnapshotBeforeUpdate'') (\<lambda>getSnapshotBeforeUpdate.
     bindM (if getDerivedStateFromProps \<noteq> UndefinedValue \<or> getSnapshotBeforeUpdate \<noteq> UndefinedValue then
              bindM (hostTest h HasCall getDerivedStateFromProps) (\<lambda>hasCall.
                if isECMAScriptSourceFunctionValue getDerivedStateFromProps \<and> hasCall then
                  bindM (hostOp h ApplyGetDerivedStateFromProps [getDerivedStateFromProps, instance, props])
                    (\<lambda>_. returnM ())
                else returnM ())
            else
              bindM (Get h instance ''componentWillMount'') (\<lambda>componentWillMount.
              bindM (hostTest h HasCall componentWillMount) (\<lambda>hasCall.
              bindM (if isECMAScriptSourceFunctionValue componentWillMount \<and> hasCall then
                       bindM (hostOp h InternalCall [componentWillMount, instance]) (\<lambda>_. returnM ())
                     else returnM ()) (\<lambda>_.
              bindM (Get h instance ''UNSAFE_componentWillMount'') (\<lambda>unsafeComponentWillMount.
              bindM (hostTest h HasCall unsafeComponentWillMount) (\<lambda>hasCall.
                if isECMAScriptSourceFunctionValue unsafeComponentWillMount \<and> hasCall then
                  bindM (hostOp h InternalCall [unsafeComponentWillMount, instance]) (\<lambda>_. returnM ())
                else returnM ())))))) (\<lambda>_.
     bindM (Get h instance ''render'') (\<lambda>renderMethod.
     bindM (invariant (isECMAScriptSourceFunctionValue renderMethod) []) (\<lambda>_.
     getValueFromFunctionCall h renderMethod instance []))))))"

section \<open>Host elements and their children\<close>

type_synonym 'r resolveDeeplyT =
  "Value \<Rightarrow> Value \<Rightarrow> Value \<Rightarrow> BranchStatusEnum \<Rightarrow> nat \<Rightarrow> ('r Reconciler, Value) M"

type_synonym 'r resolveComponentT =
  "Value \<Rightarrow> Value \<Rightarrow> Value \<Rightarrow> BranchStatusEnum \<Rightarrow> nat \<Rightarrow> ('r Reconciler, Value \<times> Value) M"

primrec mapM :: "'a list \<Rightarrow> ('a \<Rightarrow> ('s, 'b) M) \<Rightarrow> ('s, 'b list) M" where
  "mapM [] f = returnM []"
| "mapM (x # xs) f = bindM (f x) (\<lambda>y. bindM (mapM xs f) (\<lambda>ys. returnM (y # ys)))"

text \<open>
  The functions below call \<open>_resolveDeeply\<close> and \<open>_resolveComponent\<close>, which call them
  back. Each takes the two as parameters (\<open>resolveDeeply'\<close>, \<open>resolveComponent'\<close>); the
  recursion is closed further down. The fuel \<open>n\<close> is the one of the searches they start.
\<close>

definition resolveReactElementHostChildren ::
  "'r Host \<Rightarrow> 'r resolveDeeplyT \<Rightarrow> Value \<Rightarrow> Value \<Rightarrow> Value \<Rightarrow> BranchStatusEnum \<Rightarrow> nat
   \<Rightarrow> ('r Reconciler, Value) M" where
  "resolveReactElementHostChildren h resolveDeeply' componentType' reactElement context branchStatus
     evaluatedNode =
     bindM (getProperty h reactElement ''type'') (\<lambda>typeValue.
     bindM (getProperty h reactElement ''props'') (\<lambda>propsValue.
     bindM (getProperty h reactElement ''key'') (\<lambda>keyValue.
     bindM (getProperty h reactElement ''ref'') (\<lambda>refValue.
     bindM (hostRead (\<lambda>r. h_propertiesHas h r propsValue ''children'')) (\<lambda>hasChildren.
     if isObjectValue propsValue \<and> hasChildren then
       bindM (Get h propsValue ''children'') (\<lambda>childrenValue.
       bindM (resolveDeeply' componentType' childrenValue context branchStatus evaluatedNode)
         (\<lambda>resolvedChildren.
       bindM (hostTest h HasIntrinsicName resolvedChildren) (\<lambda>intrinsicName.
       bindM (if isArrayValue resolvedChildren \<and> \<not> intrinsicName
              then hostOp h FlattenChildren [resolvedChildren]
              else returnM resolvedChildren) (\<lambda>resolvedChildren.
       if resolvedChildren \<noteq> childrenValue then
         bindM (hostOp h NewObjectValue []) (\<lambda>newProps.
         bindM (hostRead (\<lambda>r. h_enumerableProperties h r propsValue)) (\<lambda>keys.
         bindM (forEachM (filter (\<lambda>key. key \<noteq> ''children'') keys) (\<lambda>key.
                  bindM (getProperty h propsValue key) (\<lambda>propValue.
                  bindM (hostOp h (PropertiesSet key) [newProps, propValue]) (\<lambda>_. returnM ())))) (\<lambda>_.
         bindM (hostOp h (PropertiesSet ''children'') [newProps, resolvedChildren]) (\<lambda>_.
         bindM (hostTest h IsSimpleObject propsValue) (\<lambda>simple.
         bindM (if simple then bindM (hostOp h MakeSimple [newProps]) (\<lambda>_. returnM ())
                else returnM ()) (\<lambda>_.
         bindM (hostTest h IsPartialObject propsValue) (\<lambda>partial.
         bindM (if partial then bindM (hostOp h MakePartial [newProps]) (\<lambda>_. returnM ())
                else returnM ()) (\<lambda>_.
         bindM (hostTest h PropsWithNoPartialKeyOrRef propsValue) (\<lambda>flagged.
         bindM (if flagged then bindM (hostOp h FlagPropsWithNoPartialKeyOrRef [newProps]) (\<lambda>_. returnM ())
                else returnM ()) (\<lambda>_.
         bindM (hostOp h MakeFinal [newProps]) (\<lambda>_.
         hostOp h CreateInternalReactElement [typeValue, keyValue, refValue, newProps])))))))))))
       else returnM reactElement))))
     else returnM reactElement)))))"

definition resolveContextProviderComponent ::
  "'r Host \<Rightarrow> 'r resolveDeeplyT \<Rightarrow> Value \<Rightarrow> Value \<Rightarrow> Value \<Rightarrow> BranchStatusEnum \<Rightarrow> nat
   \<Rightarrow> ('r Reconciler, Value) M" where
  "resolveContextProviderComponent h resolveDeeply' componentType' reactElement context branchStatus
     evaluatedNode =
     bindM (getProperty h reactElement ''type'') (\<lambda>typeValue.
     bindM (getProperty h reactElement ''props'') (\<lambda>propsValue.
     bindM (createReactEvaluatedNode NORMAL ''Context.Provider'') (\<lambda>evaluatedChildNode.
     bindM (pushChild evaluatedNode evaluatedChildNode) (\<lambda>_.
     bindM incComponentsEvaluated (\<lambda>_.
     bindM (invariant (isObjectValue typeValue \<or> isAbstractObjectValue typeValue) []) (\<lambda>_.
     bindM (getProperty h typeValue ''context'') (\<lambda>contextConsumer.
     bindM (invariant (isObjectValue contextConsumer \<or> isAbstractObjectValue contextConsumer) []) (\<lambda>_.
     bindM (getProperty h contextConsumer ''currentValue'') (\<lambda>lastValueProp.
     bindM (incremementReferenceForContextNode contextConsumer) (\<lambda>_.
     bindM (if isObjectValue propsValue \<or> isAbstractObjectValue propsValue then
              bindM (Get h propsValue ''value'') (\<lambda>valueProp.
              setContextCurrentValue h contextConsumer valueProp)
            else returnM ()) (\<lambda>_.
     if firstRenderOnly h \<and> isObjectValue propsValue then
       bindM (resolveReactElementHostChildren h resolveDeeply' componentType' reactElement context
                branchStatus evaluatedChildNode) (\<lambda>resolvedReactElement.
       bindM (getProperty h resolvedReactElement ''props'') (\<lambda>resolvedPropsValue.
       bindM (invariant (isObjectValue resolvedPropsValue \<or> isAbstractObjectValue resolvedPropsValue) [])
         (\<lambda>_.
       bindM (setContextCurrentValue h contextConsumer lastValueProp) (\<lambda>_.
       bindM (decremementReferenceForContextNode contextConsumer) (\<lambda>_.
       bindM (getsM (\<lambda>s. deadEnds (componentTreeState s))) (\<lambda>deadEndsNow.
       if deadEndsNow = 0 then
         bindM (Get h resolvedPropsValue ''children'') (\<lambda>childrenValue.
         bindM (setNodeStatus evaluatedChildNode INLINED) (\<lambda>_.
         bindM incInlinedComponents (\<lambda>_.
         returnM childrenValue)))
       else returnM resolvedReactElement))))))
     else
       bindM (resolveReactElementHostChildren h resolveDeeply' componentType' reactElement context
                branchStatus evaluatedChildNode) (\<lambda>children.
       bindM (setContextCurrentValue h contextConsumer lastValueProp) (\<lambda>_.
       bindM (decremementReferenceForContextNode contextConsumer) (\<lambda>_.
       returnM children))))))))))))))"

text \<open>
  The consumer, the forward ref and the query renderer return a value or nothing
  (\<open>Value | void\<close>): \<open>None\<close> is the \<open>undefined\<close> of a plain \<open>return;\<close>.
\<close>

definition resolveContextConsumerComponent ::
  "'r Host \<Rightarrow> nat \<Rightarrow> Value \<Rightarrow> Value \<Rightarrow> Value \<Rightarrow> nat \<Rightarrow> ('r Reconciler, Value option) M" where
  "resolveContextConsumerComponent h n componentType' reactElement context evaluatedNode =
     bindM (getProperty h reactElement ''type'') (\<lambda>typeValue.
     bindM (getProperty h reactElement ''props'') (\<lambda>propsValue.
     bindM (createReactEvaluatedNode RENDER_PROPS ''Context.Consumer'') (\<lambda>evaluatedChildNode.
     bindM (pushChild evaluatedNode evaluatedChildNode) (\<lambda>_.
     bindM (hostRead (\<lambda>r. h_propertiesHas h r propsValue ''children'')) (\<lambda>hasChildren.
     if (isObjectValue propsValue \<or> isAbstractObjectValue propsValue)
        \<and> isObjectValue propsValue \<and> hasChildren then
       bindM (getProperty h propsValue ''children'') (\<lambda>renderProp.
       bindM (findReactComponentTrees h n propsValue evaluatedChildNode NORMAL_FUNCTIONS None None) (\<lambda>_.
       if isECMAScriptSourceFunctionValue renderProp then
         bindM (hasReferenceForContextNode typeValue) (\<lambda>hasReference.
         if firstRenderOnly h \<and> (isObjectValue typeValue \<or> isAbstractObjectValue typeValue)
            \<and> hasReference then
           bindM (Get h typeValue ''currentValue'') (\<lambda>valueProp.
           bindM (getValueFromFunctionCall h renderProp UndefinedValue [valueProp]) (\<lambda>result.
           bindM incInlinedComponents (\<lambda>_.
           bindM incComponentsEvaluated (\<lambda>_.
           bindM (setNodeStatus evaluatedChildNode INLINED) (\<lambda>_.
           returnM (Some result))))))
         else
           bindM (queueOptimizedClosure h renderProp evaluatedChildNode (Some componentType')
                    (Some context)) (\<lambda>_.
           returnM None))
       else
         bindM (findReactComponentTrees h n renderProp evaluatedChildNode NESTED_CLOSURES None None) (\<lambda>_.
         bindM incDeadEnds (\<lambda>_.
         returnM None))))
     else
       bindM incDeadEnds (\<lambda>_.
       returnM None))))))"

definition resolveForwardRefComponent ::
  "'r Host \<Rightarrow> 'r resolveDeeplyT \<Rightarrow> Value \<Rightarrow> Value \<Rightarrow> Value \<Rightarrow> BranchStatusEnum \<Rightarrow> nat
   \<Rightarrow> ('r Reconciler, Value option) M" where
  "resolveForwardRefComponent h resolveDeeply' componentType' reactElement context branchStatus
     evaluatedNode =
     bindM (getProperty h reactElement ''type'') (\<lambda>typeValue.
     bindM (getProperty h reactElement ''props'') (\<lambda>propsValue.
     bindM (getProperty h reactElement ''ref'') (\<lambda>refValue.
     bindM (invariant (isAbstractValue typeValue \<or> isObjectValue typeValue) []) (\<lambda>_.
     bindM (hostRead (\<lambda>r. h_abstractHints h r typeValue)) (\<lambda>reactHint.
     case reactHint of
       None \<Rightarrow> throwM (InvariantViolation [])
     | Some (StringHint str) \<Rightarrow> throwM (OtherError ''TypeError'')
     | Some (Hint ob propertyName args firstRenderValue) \<Rightarrow>
         bindM (returnM (case args of [] \<Rightarrow> UndefinedValue | first # rest \<Rightarrow> first)) (\<lambda>forwardedComponent.
         bindM (getComponentName h forwardedComponent) (\<lambda>nm.
         bindM (createReactEvaluatedNode FORWARD_REF nm) (\<lambda>evaluatedChildNode.
         bindM (pushChild evaluatedNode evaluatedChildNode) (\<lambda>_.
         bindM (invariant (isECMAScriptSourceFunctionValue forwardedComponent)
                  ''expect React.forwardRef() to be passed function value'') (\<lambda>_.
         bindM (getValueFromFunctionCall h forwardedComponent UndefinedValue [propsValue, refValue])
           (\<lambda>val.
         bindM (resolveDeeply' componentType' val context branchStatus evaluatedChildNode) (\<lambda>resolved.
         returnM (Some resolved)))))))))))))"

definition resolveRelayQueryRendererComponent ::
  "'r Host \<Rightarrow> nat \<Rightarrow> Value \<Rightarrow> Value \<Rightarrow> Value \<Rightarrow> nat \<Rightarrow> ('r Reconciler, Value option) M" where
  "resolveRelayQueryRendererComponent h n componentType' reactElement context evaluatedNode =
     bindM (getProperty h reactElement ''type'') (\<lambda>typeValue.
     bindM (getProperty h reactElement ''props'') (\<lambda>propsValue.
     bindM (getComponentName h typeValue) (\<lambda>nm.
     bindM (createReactEvaluatedNode RENDER_PROPS nm) (\<lambda>evaluatedChildNode.
     bindM (pushChild evaluatedNode evaluatedChildNode) (\<lambda>_.
     if isObjectValue propsValue \<or> isAbstractObjectValue propsValue then
       bindM (hostRead (\<lambda>r. h_propertiesHas h r propsValue ''render'')) (\<lambda>hasRender.
       bindM (if isObjectValue propsValue \<and> hasRender then
                bindM (getProperty h propsValue ''render'') (\<lambda>renderProp.
                  if isECMAScriptSourceFunctionValue renderProp then
                    queueOptimizedClosure h renderProp evaluatedChildNode (Some componentType') (Some context)
                  else if isAbstractValue renderProp then
                    findReactComponentTrees h n renderProp evaluatedChildNode NESTED_CLOSURES
                      (Some componentType') (Some context)
                  else returnM ())
              else returnM ()) (\<lambda>_.
       bindM (findReactComponentTrees h n propsValue evaluatedChildNode NORMAL_FUNCTIONS None None) (\<lambda>_.
       returnM None)))
     else
       bindM incDeadEnds (\<lambda>_.
       returnM None))))))"

section \<open>Resolving a component\<close>

definition resolveRelayContainer ::
  "'r Host \<Rightarrow> 'r resolveComponentT \<Rightarrow> ReactHint \<Rightarrow> Value \<Rightarrow> Value \<Rightarrow> BranchStatusEnum \<Rightarrow> nat
   \<Rightarrow> ('r Reconciler, Value \<times> Value) M" where
  "resolveRelayContainer h resolveComponent' reactHint props context branchStatus evaluatedNode =
     bindM (setNodeStatus evaluatedNode INLINED) (\<lambda>_.
     bindM (setNodeMessage evaluatedNode ''RelayContainer'') (\<lambda>_.
     case reactHint_firstRenderValue reactHint of
       None \<Rightarrow> throwM (InvariantViolation [])
     | Some firstRenderValue \<Rightarrow>
         bindM (getProperty h context ''relay'') (\<lambda>relay.
         bindM (if relay = UndefinedValue then
                  bindM (hostOp h (CreateAbstractObject ''context.relay'') []) (\<lambda>abstractRelayContext.
                  bindM (hostOp h (CreateAbstractObject ''context.relay.environment'') [])
                    (\<lambda>abstractRelayEnvironment.
                  bindM (hostOp h (CreateAbstractObject ''context.relay.environment.unstable_internal'') [])
                    (\<lambda>abstractRelayInternal.
                  bindM (hostOp h (PropertiesSet ''relay'') [context, abstractRelayContext]) (\<lambda>_.
                  bindM (hostOp h (PropertiesSet ''environment'')
                           [abstractRelayContext, abstractRelayEnvironment]) (\<lambda>_.
                  bindM (hostOp h (PropertiesSet ''unstable_internal'')
                           [abstractRelayEnvironment, abstractRelayInternal]) (\<lambda>_.
                  returnM ()))))))
                else returnM ()) (\<lambda>_.
         bindM (modifyM (\<lambda>s. s\<lparr>componentTreeState := (componentTreeState s)
                  \<lparr>contextTypes := insert ''relay'' (contextTypes (componentTreeState s))\<rparr>\<rparr>)) (\<lambda>_.
         resolveComponent' firstRenderValue props context branchStatus evaluatedNode)))))"

text \<open>
  \<open>_resolveComponent\<close> returns \<open>{ result, childContext }\<close>, here a pair; \<open>childContext\<close> is
  the context it was given.
\<close>

definition resolveComponent_body ::
  "'r Host \<Rightarrow> 'r resolveDeeplyT \<Rightarrow> 'r resolveComponentT \<Rightarrow> 'r resolveComponentT" where
  "resolveComponent_body h resolveDeeply' resolveComponent' componentType' props context branchStatus
     evaluatedNode =
     bindM (hostTest h DoNotOptimizeComponent componentType') (\<lambda>doNotOptimize.
     if doNotOptimize then throwM (DoNotOptimize ''__reactCompilerDoNotOptimize flag detected'')
     else
       bindM incComponentsEvaluated (\<lambda>_.
       bindM (hostTest h ValueIsKnownReactAbstraction componentType') (\<lambda>known.
       if known then
         bindM (invariant (isAbstractValue componentType') []) (\<lambda>_.
         bindM (hostRead (\<lambda>r. h_abstractHints h r componentType')) (\<lambda>reactHint.
         bindM (hostRead (\<lambda>r. h_fbLibraries h r ''reactRelay'')) (\<lambda>reactRelay.
         case reactHint of
           None \<Rightarrow> throwM (InvariantViolation [])
         | Some hint \<Rightarrow>
             if reactHint_object hint \<noteq> None \<and> reactHint_object hint = reactRelay \<and> firstRenderOnly h then
               resolveRelayContainer h resolveComponent' hint props context branchStatus evaluatedNode
             else
               bindM (queueNewComponentTree h componentType' evaluatedNode None None) (\<lambda>_.
               bindM (setNodeStatus evaluatedNode NEW_TREE) (\<lambda>_.
               bindM (setNodeMessage evaluatedNode ''RelayContainer'') (\<lambda>_.
               throwM (NewComponentTreeBranch evaluatedNode)))))))
       else
         bindM (invariant (isECMAScriptSourceFunctionValue componentType') []) (\<lambda>_.
         bindM (hostTest h ValueIsLegacyCreateClassComponent componentType') (\<lambda>legacy.
         if legacy then
           throwM (ExpectedBailOut ''components created with create-react-class are not supported'')
         else
           bindM (hostTest h ValueIsClassComponent componentType') (\<lambda>isClass.
           bindM (if isClass then
                    bindM (if firstRenderOnly h then
                             resolveClassComponentForFirstRenderOnly h componentType' props context
                               branchStatus evaluatedNode
                           else
                             resolveClassComponent h componentType' props context branchStatus
                               evaluatedNode) (\<lambda>val.
                    returnM (Inr val))
                  else
                    bindM (resolveFunctionalComponent h componentType' props context evaluatedNode)
                      (\<lambda>val.
                    bindM (hostTest h ValueIsFactoryClassComponent val) (\<lambda>factory.
                    if factory then
                      bindM (invariant (isObjectValue val) []) (\<lambda>_.
                      if branchStatus \<noteq> ROOT then
                        throwM (ExpectedBailOut ''non-root factory class components are not suppoted'')
                      else returnM (Inl (val, context)))
                    else returnM (Inr val)))) (\<lambda>outcome.
           case outcome of
             Inl returned \<Rightarrow> returnM returned
           | Inr val \<Rightarrow>
               bindM (resolveDeeply' componentType' val context
                        (if branchStatus = ROOT then NO_BRANCH else branchStatus) evaluatedNode)
                 (\<lambda>result.
               returnM (result, context)))))))))"

datatype ComponentResolutionStrategy =
    STRATEGY_NORMAL
  | STRATEGY_FRAGMENT
  | STRATEGY_RELAY_QUERY_RENDERER
  | STRATEGY_CONTEXT_PROVIDER
  | STRATEGY_CONTEXT_CONSUMER
  | STRATEGY_FORWARD_REF

definition getComponentResolutionStrategy ::
  "'r Host \<Rightarrow> Value \<Rightarrow> ('r Reconciler, ComponentResolutionStrategy) M" where
  "getComponentResolutionStrategy h val =
     bindM (hostRead (\<lambda>r. h_fbLibraries h r ''reactRelay'')) (\<lambda>reactRelay.
     bindM (case reactRelay of
              None \<Rightarrow> returnM False
            | Some library \<Rightarrow>
                bindM (getProperty h library ''QueryRenderer'') (\<lambda>queryRenderer.
                returnM (val = queryRenderer))) (\<lambda>isQueryRenderer.
     if isQueryRenderer then returnM STRATEGY_RELAY_QUERY_RENDERER
     else
       bindM (hostRead (\<lambda>r. h_getReactSymbol h r ''react.fragment'')) (\<lambda>fragment.
       if val = fragment then returnM STRATEGY_FRAGMENT
       else
         bindM (hostRead (\<lambda>r. h_abstractHints h r val)) (\<lambda>reactHint.
         bindM (hostRead (\<lambda>r. h_fbLibraries h r ''react'')) (\<lambda>react.
         if isAbstractValue val \<and>
            (case reactHint of
               None \<Rightarrow> False
             | Some hint \<Rightarrow> reactHint_object hint = react
                            \<and> reactHint_propertyName hint = Some ''forwardRef'') then
           returnM STRATEGY_FORWARD_REF
         else
           bindM (hostTest h IsConditional val) (\<lambda>conditional.
           if (isObjectValue val \<or> isAbstractObjectValue val) \<and> \<not> conditional then
             bindM (getProperty h val ''$$typeof'') (\<lambda>typeof.
             bindM (hostRead (\<lambda>r. h_getReactSymbol h r ''react.context'')) (\<lambda>contextSymbol.
             bindM (hostRead (\<lambda>r. h_getReactSymbol h r ''react.provider'')) (\<lambda>providerSymbol.
             if typeof = contextSymbol then returnM STRATEGY_CONTEXT_CONSUMER
             else if typeof = providerSymbol then returnM STRATEGY_CONTEXT_PROVIDER
             else returnM STRATEGY_NORMAL)))
           else returnM STRATEGY_NORMAL))))))"

section \<open>Abstract values, portals and arrays\<close>

definition resolveReactDomPortal ::
  "'r Host \<Rightarrow> 'r resolveDeeplyT \<Rightarrow> Value \<Rightarrow> Value list \<Rightarrow> Value \<Rightarrow> Value \<Rightarrow> BranchStatusEnum \<Rightarrow> nat
   \<Rightarrow> ('r Reconciler, Value) M" where
  "resolveReactDomPortal h resolveDeeply' createPortalNode args componentType' context branchStatus
     evaluatedNode =
     (case args of
        reactPortalValue # domNodeValue # rest \<Rightarrow>
          bindM (createReactEvaluatedNode INLINED ''ReactDOM.createPortal'') (\<lambda>evaluatedChildNode.
          bindM (resolveDeeply' componentType' reactPortalValue context branchStatus evaluatedChildNode)
            (\<lambda>resolvedReactPortalValue.
          bindM (pushChild evaluatedNode evaluatedChildNode) (\<lambda>_.
          if resolvedReactPortalValue \<noteq> reactPortalValue then
            bindM incInlinedComponents (\<lambda>_.
            bindM (hostRead (\<lambda>r. h_fbLibraries h r ''reactDom'')) (\<lambda>reactDomValue.
            case reactDomValue of
              None \<Rightarrow> throwM (InvariantViolation [])
            | Some reactDom \<Rightarrow>
                bindM (invariant (isObjectValue reactDom) []) (\<lambda>_.
                bindM (getProperty h reactDom ''createPortal'') (\<lambda>reactDomPortalFunc.
                hostOp h CreateTemporalFromBuildFunction
                  [reactDomPortalFunc, resolvedReactPortalValue, domNodeValue]))))
          else returnM createPortalNode)))
      | _ \<Rightarrow> throwM (OtherError ''TypeError''))"

text \<open>
  Modelled from the spec: \<open>realm.evaluateForEffects\<close>, which is not in the file. The spec's
  external interface gives \<open>evaluateForEffects(thunk) -> EffectsHandle\<close>, "guaranteed to
  roll back or commit atomically": the thunk runs, its result and the host state it reached
  are captured, and the host state is put back. The reconciler's own fields are plain
  JavaScript and keep what the thunk did to them.
\<close>

definition evaluateForEffects :: "('r Reconciler, Value) M \<Rightarrow> ('r Reconciler, 'r Effects) M" where
  "evaluateForEffects f = (\<lambda>s. case f s of
       (Returns v, s') \<Rightarrow> (Returns (Effects v (realm s')), s'\<lparr>realm := realm s\<rparr>)
     | (Throws e, s') \<Rightarrow> (Throws e, s'\<lparr>realm := realm s\<rparr>)
     | (Diverges, s') \<Rightarrow> (Diverges, s'))"

text \<open>
  Modelled from the spec: \<open>realm.evaluateWithAbstractConditional\<close>, which is not in the file.
  The spec (4.6): both branches are resolved under independent speculative evaluations, "then
  the two captured outcomes are combined back into a single conditional result via a
  branching-merge step"; the merge is the host's.
\<close>

definition evaluateWithAbstractConditional ::
  "'r Host \<Rightarrow> Value \<Rightarrow> ('r Reconciler, 'r Effects) M \<Rightarrow> ('r Reconciler, 'r Effects) M
   \<Rightarrow> ('r Reconciler, Value) M" where
  "evaluateWithAbstractConditional h condValue consequentEffectsFunc alternateEffectsFunc =
     bindM consequentEffectsFunc (\<lambda>effects1.
     bindM alternateEffectsFunc (\<lambda>effects2.
     hostRun (\<lambda>r. h_joinEffects h r condValue effects1 effects2)))"

definition resolveAbstractConditionalValue ::
  "'r Host \<Rightarrow> 'r resolveDeeplyT \<Rightarrow> Value \<Rightarrow> Value \<Rightarrow> Value \<Rightarrow> Value \<Rightarrow> Value \<Rightarrow> nat
   \<Rightarrow> ('r Reconciler, Value) M" where
  "resolveAbstractConditionalValue h resolveDeeply' componentType' condValue consequentVal alternateVal
     context evaluatedNode =
     bindM (evaluateWithAbstractConditional h condValue
              (evaluateForEffects
                 (resolveDeeply' componentType' consequentVal context NEW_BRANCH evaluatedNode))
              (evaluateForEffects
                 (resolveDeeply' componentType' alternateVal context NEW_BRANCH evaluatedNode)))
       (\<lambda>val.
     bindM (hostTest h IsConditional val) (\<lambda>conditional.
     if isAbstractValue val \<and> conditional then
       hostRun (\<lambda>r. h_getValueWithBranchingLogicApplied h r consequentVal alternateVal val)
     else returnM val))"

definition resolveAbstractValue ::
  "'r Host \<Rightarrow> 'r resolveDeeplyT \<Rightarrow> Value \<Rightarrow> Value \<Rightarrow> Value \<Rightarrow> BranchStatusEnum \<Rightarrow> nat
   \<Rightarrow> ('r Reconciler, Value) M" where
  "resolveAbstractValue h resolveDeeply' componentType' val context branchStatus evaluatedNode =
     bindM (hostRead (h_hasGenerator h)) (\<lambda>generator.
     bindM (invariant generator []) (\<lambda>_.
     bindM (hostTest h IsConditional val) (\<lambda>conditional.
     if conditional then
       bindM (hostRead (\<lambda>r. h_args h r val)) (\<lambda>args.
       case args of
         [] \<Rightarrow> throwM (InvariantViolation [])
       | condValue # others \<Rightarrow>
           bindM (invariant (isAbstractValue condValue) []) (\<lambda>_.
           case others of
             consequentVal # alternateVal # rest \<Rightarrow>
               resolveAbstractConditionalValue h resolveDeeply' componentType' condValue consequentVal
                 alternateVal context evaluatedNode
           | _ \<Rightarrow> throwM (OtherError ''TypeError'')))
     else
       bindM (hostRead (\<lambda>r. h_abstractHints h r val)) (\<lambda>reactHint.
       bindM (hostRead (\<lambda>r. h_fbLibraries h r ''reactDom'')) (\<lambda>reactDom.
       if (case reactHint of
             None \<Rightarrow> False
           | Some hint \<Rightarrow> reactHint_object hint = reactDom
                          \<and> reactHint_propertyName hint = Some ''createPortal'') then
         resolveReactDomPortal h resolveDeeply' val
           (case reactHint of None \<Rightarrow> [] | Some hint \<Rightarrow> reactHint_args hint)
           componentType' context branchStatus evaluatedNode
       else
         bindM incDeadEnds (\<lambda>_.
         returnM val))))))"

text \<open>
  Modelled from the spec: \<open>mapArrayValue\<close> of utils.js, which is not in the file. The spec
  (4.1): each element is resolved independently, "using an array-mapping strategy that
  preserves order and produces a new collection only if any element changed value-identity".
\<close>

definition mapArrayValue ::
  "'r Host \<Rightarrow> Value \<Rightarrow> (Value \<Rightarrow> ('r Reconciler, Value) M) \<Rightarrow> ('r Reconciler, Value) M" where
  "mapArrayValue h array mapFunc =
     bindM (hostRead (\<lambda>r. h_arrayElements h r array)) (\<lambda>elements.
     bindM (mapM elements mapFunc) (\<lambda>mapped.
     if mapped = elements then returnM array
     else hostOp h CreateArray mapped))"

definition resolveArray ::
  "'r Host \<Rightarrow> 'r resolveDeeplyT \<Rightarrow> Value \<Rightarrow> Value \<Rightarrow> Value \<Rightarrow> BranchStatusEnum \<Rightarrow> nat
   \<Rightarrow> ('r Reconciler, Value) M" where
  "resolveArray h resolveDeeply' componentType' arrayValue context branchStatus evaluatedNode =
     bindM (hostTest h IsIntrinsicAndHasWidenedNumericProperty arrayValue) (\<lambda>widened.
     bindM (hostRead (\<lambda>r. h_arrayHints h r arrayValue)) (\<lambda>arrayHint.
     case (if widened then arrayHint else None) of
       Some hint \<Rightarrow>
         bindM (if isECMAScriptSourceFunctionValue (ah_func hint) \<or> isBoundFunctionValue (ah_func hint) then
                  (if ah_thisVal hint \<noteq> None \<and> ah_thisVal hint \<noteq> Some UndefinedValue then
                     throwM (ExpectedBailOut
                       (''abstract mapped arrays with '' @ [CHR 0x22] @ ''this'' @ [CHR 0x22]
                        @ '' argument are not yet supported''))
                   else
                     queueOptimizedClosure h (ah_func hint) evaluatedNode (Some componentType')
                       (Some context))
                else returnM ()) (\<lambda>_.
         returnM arrayValue)
     | None \<Rightarrow>
         mapArrayValue h arrayValue (\<lambda>elementValue.
           resolveDeeply' componentType' elementValue context NEW_BRANCH evaluatedNode)))"

section \<open>React elements\<close>

definition resolveUnknownComponentType ::
  "'r Host \<Rightarrow> nat \<Rightarrow> Value \<Rightarrow> nat \<Rightarrow> ('r Reconciler, Value) M" where
  "resolveUnknownComponentType h n reactElement evaluatedNode =
     bindM (getProperty h reactElement ''type'') (\<lambda>typeValue.
     bindM (getProperty h reactElement ''props'') (\<lambda>propsValue.
     bindM (findReactComponentTrees h n propsValue evaluatedNode NORMAL_FUNCTIONS None None) (\<lambda>_.
     if isAbstractValue typeValue then
       bindM (findReactComponentTrees h n typeValue evaluatedNode FUNCTIONAL_COMPONENTS None None) (\<lambda>_.
       returnM reactElement)
     else
       bindM (getComponentName h typeValue) (\<lambda>nm.
       bindM (createReactEvaluatedNode BAIL_OUT nm) (\<lambda>evaluatedChildNode.
       bindM (pushChild evaluatedNode evaluatedChildNode) (\<lambda>_.
       bindM (setNodeMessage evaluatedChildNode
                ''type on <Component /> was not a ECMAScriptSourceFunctionValue'') (\<lambda>_.
       bindM (assignBailOutMessage reactElement
                ''type on <Component /> was not a ECMAScriptSourceFunctionValue'') (\<lambda>_.
       bindM incDeadEnds (\<lambda>_.
       returnM reactElement)))))))))"

definition resolveReactElementBadRef ::
  "'r Host \<Rightarrow> nat \<Rightarrow> Value \<Rightarrow> nat \<Rightarrow> ('r Reconciler, Value) M" where
  "resolveReactElementBadRef h n reactElement evaluatedNode =
     bindM (getProperty h reactElement ''type'') (\<lambda>typeValue.
     bindM (getProperty h reactElement ''props'') (\<lambda>propsValue.
     bindM (getComponentName h typeValue) (\<lambda>nm.
     bindM (createReactEvaluatedNode BAIL_OUT nm) (\<lambda>evaluatedChildNode.
     bindM (pushChild evaluatedNode evaluatedChildNode) (\<lambda>_.
     bindM (setNodeMessage evaluatedChildNode ''refs are not supported on <Components />'') (\<lambda>_.
     bindM (queueNewComponentTree h typeValue evaluatedChildNode None None) (\<lambda>_.
     bindM (findReactComponentTrees h n propsValue evaluatedNode NORMAL_FUNCTIONS None None) (\<lambda>_.
     bindM (assignBailOutMessage reactElement ''refs are not supported on <Components />'') (\<lambda>_.
     returnM reactElement)))))))))"

definition resolveReactElementUndefinedRender ::
  "'r Host \<Rightarrow> nat \<Rightarrow> Value \<Rightarrow> nat \<Rightarrow> BranchStatusEnum \<Rightarrow> ('r Reconciler, Value) M" where
  "resolveReactElementUndefinedRender h n reactElement evaluatedNode branchStatus =
     bindM (getProperty h reactElement ''type'') (\<lambda>typeValue.
     bindM (getProperty h reactElement ''props'') (\<lambda>propsValue.
     bindM (getComponentName h typeValue) (\<lambda>nm.
     bindM (createReactEvaluatedNode BAIL_OUT nm) (\<lambda>evaluatedChildNode.
     bindM (pushChild evaluatedNode evaluatedChildNode) (\<lambda>_.
     bindM (setNodeMessage evaluatedChildNode ''undefined was returned from render'') (\<lambda>_.
     bindM (assignBailOutMessage reactElement ''undefined was returned from render'') (\<lambda>_.
     bindM (findReactComponentTrees h n propsValue evaluatedNode NORMAL_FUNCTIONS None None) (\<lambda>_.
     returnM reactElement))))))))"

definition resolveFragmentComponent ::
  "'r Host \<Rightarrow> 'r resolveDeeplyT \<Rightarrow> Value \<Rightarrow> Value \<Rightarrow> Value \<Rightarrow> BranchStatusEnum \<Rightarrow> nat
   \<Rightarrow> ('r Reconciler, Value) M" where
  "resolveFragmentComponent h resolveDeeply' componentType' reactElement context branchStatus
     evaluatedNode =
     bindM incComponentsEvaluated (\<lambda>_.
     if firstRenderOnly h then
       bindM (createReactEvaluatedNode INLINED ''React.Fragment'') (\<lambda>evaluatedChildNode.
       bindM (pushChild evaluatedNode evaluatedChildNode) (\<lambda>_.
       bindM incInlinedComponents (\<lambda>_.
       resolveReactElementHostChildren h resolveDeeply' componentType' reactElement context branchStatus
         evaluatedChildNode)))
     else
       bindM (createReactEvaluatedNode NORMAL ''React.Fragment'') (\<lambda>evaluatedChildNode.
       bindM (pushChild evaluatedNode evaluatedChildNode) (\<lambda>_.
       resolveReactElementHostChildren h resolveDeeply' componentType' reactElement context branchStatus
         evaluatedChildNode)))"

definition quoted :: "string \<Rightarrow> string" where
  "quoted nm = [CHR 0x22] @ nm @ [CHR 0x22]"

text \<open>The message of a thrown host exception: its \<open>message\<close>, a line break, its \<open>stack\<close>.\<close>

definition completionMessage :: "'r Host \<Rightarrow> Value \<Rightarrow> ('r Reconciler, string) M" where
  "completionMessage h val =
     bindM (invariant (isObjectValue val) []) (\<lambda>_.
     bindM (getProperty h val ''message'') (\<lambda>messageValue.
     bindM (getProperty h val ''stack'') (\<lambda>stackValue.
     case (messageValue, stackValue) of
       (StringValue m, StringValue stack) \<Rightarrow> returnM (m @ [CHR 0x0A] @ stack)
     | _ \<Rightarrow> throwM (InvariantViolation []))))"

definition resolveComponentResolutionFailure ::
  "'r Host \<Rightarrow> nat \<Rightarrow> error \<Rightarrow> Value \<Rightarrow> nat \<Rightarrow> BranchStatusEnum \<Rightarrow> ('r Reconciler, Value) M" where
  "resolveComponentResolutionFailure h n error reactElement evaluatedNode branchStatus =
     (case error of
        InvariantViolation m \<Rightarrow> throwM error
      | ReconcilerFatalError m node \<Rightarrow> throwM error
      | UnsupportedSideEffect m \<Rightarrow>
          bindM (getsM (\<lambda>s. node_name (nodes s evaluatedNode))) (\<lambda>nm.
          throwM (ReconcilerFatalError
            (''Failed to render React component '' @ quoted nm @ '' due to '' @ m) evaluatedNode))
      | DoNotOptimize m \<Rightarrow> returnM reactElement
      | Completion val \<Rightarrow>
          bindM (completionMessage h val) (\<lambda>text.
          bindM (getsM (\<lambda>s. node_name (nodes s evaluatedNode))) (\<lambda>nm.
          throwM (ReconcilerFatalError
            (''Failed to render React component '' @ quoted nm @ '' due to a JS error: '' @ text)
            evaluatedNode)))
      | _ \<Rightarrow>
          bindM (getProperty h reactElement ''type'') (\<lambda>typeValue.
          bindM (getProperty h reactElement ''props'') (\<lambda>propsValue.
          case error of
            NewComponentTreeBranch branchNode \<Rightarrow>
              bindM (findReactComponentTrees h n propsValue evaluatedNode NORMAL_FUNCTIONS None None) (\<lambda>_.
              bindM (pushChild evaluatedNode branchNode) (\<lambda>_.
              returnM reactElement))
          | _ \<Rightarrow>
              bindM (getComponentName h typeValue) (\<lambda>nm.
              bindM (createReactEvaluatedNode BAIL_OUT nm) (\<lambda>evaluatedChildNode.
              bindM (pushChild evaluatedNode evaluatedChildNode) (\<lambda>_.
              bindM (queueNewComponentTree h typeValue evaluatedChildNode None None) (\<lambda>_.
              bindM (findReactComponentTrees h n propsValue evaluatedNode NORMAL_FUNCTIONS None None) (\<lambda>_.
              case error of
                ExpectedBailOut m \<Rightarrow>
                  bindM (setNodeMessage evaluatedChildNode m) (\<lambda>_.
                  bindM (assignBailOutMessage reactElement m) (\<lambda>_.
                  returnM reactElement))
              | FatalError m \<Rightarrow>
                  bindM (setNodeMessage evaluatedChildNode ''evaluation failed'') (\<lambda>_.
                  bindM (assignBailOutMessage reactElement ''evaluation failed'') (\<lambda>_.
                  returnM reactElement))
              | _ \<Rightarrow>
                  bindM (setNodeMessage evaluatedChildNode ''unknown error'') (\<lambda>_.
                  throwM error)))))))))"

text \<open>
  \<open>_resolveReactElement\<close>. Inside the \<open>try\<close>, a \<open>case\<close> of the \<open>switch\<close> either returns
  from the function (\<open>Inl\<close>) or breaks with a \<open>result\<close> that may be undefined (\<open>Inr\<close>).
\<close>

definition resolveReactElement ::
  "'r Host \<Rightarrow> nat \<Rightarrow> 'r resolveDeeplyT \<Rightarrow> 'r resolveComponentT \<Rightarrow> 'r resolveDeeplyT" where
  "resolveReactElement h n resolveDeeply' resolveComponent' componentType' reactElement0 context
     branchStatus evaluatedNode =
     bindM (if firstRenderOnly h then hostOp h SanitizeReactElementForFirstRenderOnly [reactElement0]
            else returnM reactElement0) (\<lambda>reactElement.
     bindM (getProperty h reactElement ''type'') (\<lambda>typeValue.
     bindM (getProperty h reactElement ''props'') (\<lambda>propsValue.
     bindM (getProperty h reactElement ''ref'') (\<lambda>refValue.
     bindM (hostTest h IsConditional typeValue) (\<lambda>typeConditional.
     bindM (invariant (\<not> (isAbstractValue typeValue \<and> typeConditional)) []) (\<lambda>_.
     bindM (hostTest h IsConditional propsValue) (\<lambda>propsConditional.
     bindM (invariant (\<not> (isAbstractValue propsValue \<and> propsConditional)) []) (\<lambda>_.
     if isStringValue typeValue then
       resolveReactElementHostChildren h resolveDeeply' componentType' reactElement context branchStatus
         evaluatedNode
     else if \<not> (isObjectValue propsValue \<or> isAbstractObjectValue propsValue) then
       bindM (assignBailOutMessage reactElement
                ''props on <Component /> was not not an ObjectValue or an AbstractObjectValue'') (\<lambda>_.
       returnM reactElement)
     else
       bindM (getComponentResolutionStrategy h typeValue) (\<lambda>componentResolutionStrategy.
       bindM (if \<not> isNullValue refValue \<and> componentResolutionStrategy \<noteq> STRATEGY_FORWARD_REF
                 \<and> \<not> isAbstractValue refValue then
                bindM (resolveReactElementBadRef h n reactElement evaluatedNode) (\<lambda>_. returnM ())
              else returnM ()) (\<lambda>_.
       tryCatch
         (bindM (case componentResolutionStrategy of
                   STRATEGY_NORMAL \<Rightarrow>
                     bindM (hostTest h ValueIsKnownReactAbstraction typeValue) (\<lambda>known.
                     if \<not> (isECMAScriptSourceFunctionValue typeValue \<or> known) then
                       bindM (resolveUnknownComponentType h n reactElement evaluatedNode) (\<lambda>v.
                       returnM (Inl v))
                     else
                       bindM (getComponentName h typeValue) (\<lambda>nm.
                       bindM (createReactEvaluatedNode INLINED nm) (\<lambda>evaluatedChildNode.
                       bindM (resolveComponent' typeValue propsValue context
                                (if branchStatus = NEW_BRANCH then BRANCH else branchStatus)
                                evaluatedChildNode) (\<lambda>render.
                       bindM (pushChild evaluatedNode evaluatedChildNode) (\<lambda>_.
                       bindM incInlinedComponents (\<lambda>_.
                       returnM (Inr (Some (fst render)))))))))
                 | STRATEGY_FRAGMENT \<Rightarrow>
                     bindM (resolveFragmentComponent h resolveDeeply' componentType' reactElement context
                              branchStatus evaluatedNode) (\<lambda>v.
                     returnM (Inl v))
                 | STRATEGY_RELAY_QUERY_RENDERER \<Rightarrow>
                     bindM (invariant (isAbstractObjectValue typeValue) []) (\<lambda>_.
                     bindM (resolveRelayQueryRendererComponent h n componentType' reactElement context
                              evaluatedNode) (\<lambda>result.
                     returnM (Inr result)))
                 | STRATEGY_CONTEXT_PROVIDER \<Rightarrow>
                     bindM (resolveContextProviderComponent h resolveDeeply' componentType' reactElement
                              context branchStatus evaluatedNode) (\<lambda>v.
                     returnM (Inl v))
                 | STRATEGY_CONTEXT_CONSUMER \<Rightarrow>
                     bindM (resolveContextConsumerComponent h n componentType' reactElement context
                              evaluatedNode) (\<lambda>result.
                     returnM (Inr result))
                 | STRATEGY_FORWARD_REF \<Rightarrow>
                     bindM (resolveForwardRefComponent h resolveDeeply' componentType' reactElement
                              context branchStatus evaluatedNode) (\<lambda>result.
                     returnM (Inr result))) (\<lambda>outcome.
          case outcome of
            Inl returned \<Rightarrow> returnM returned
          | Inr result \<Rightarrow>
              bindM (returnM (case result of None \<Rightarrow> reactElement | Some v \<Rightarrow> v)) (\<lambda>result.
              if isUndefinedValue result then
                resolveReactElementUndefinedRender h n reactElement evaluatedNode branchStatus
              else returnM result)))
         (\<lambda>error.
            resolveComponentResolutionFailure h n error reactElement evaluatedNode branchStatus)))
     ))))))))"

section \<open>The deep value resolver\<close>

definition resolveDeeply_body ::
  "'r Host \<Rightarrow> nat \<Rightarrow> 'r resolveDeeplyT \<Rightarrow> 'r resolveComponentT \<Rightarrow> 'r resolveDeeplyT" where
  "resolveDeeply_body h n resolveDeeply' resolveComponent' componentType' val context branchStatus
     evaluatedNode =
     (if isTerminalValue val then returnM val
      else
        bindM (hostTest h IsFinalDefined val) (\<lambda>final.
        bindM (invariant (\<not> isObjectValue val \<or> final)
                 (''An object value was detected during React reconcilation without its ''
                  @ ''bindings properly applied'')) (\<lambda>_.
        if isAbstractValue val then
          resolveAbstractValue h resolveDeeply' componentType' val context branchStatus evaluatedNode
        else if isArrayValue val then
          resolveArray h resolveDeeply' componentType' val context branchStatus evaluatedNode
        else
          bindM (hostTest h IsReactElement val) (\<lambda>isElement.
          if isObjectValue val \<and> isElement then
            resolveReactElement h n resolveDeeply' resolveComponent' componentType' val context
              branchStatus evaluatedNode
          else
            bindM (hostRead (\<lambda>r. h_getLocationFromValue h r val)) (\<lambda>location.
            throwM (ExpectedBailOut (''invalid return value from render'' @ location)))))))"

text \<open>
  A component may render itself, so the two mutually recursive functions are bounded by fuel:
  a call with fuel \<open>Suc n\<close> makes its nested calls, and starts its searches, with fuel \<open>n\<close>;
  a call without fuel does not return.
\<close>

primrec resolvers :: "'r Host \<Rightarrow> nat \<Rightarrow> 'r resolveDeeplyT \<times> 'r resolveComponentT" where
  "resolvers h 0 =
     (\<lambda>componentType' val context branchStatus evaluatedNode. divergeM,
      \<lambda>componentType' props context branchStatus evaluatedNode. divergeM)"
| "resolvers h (Suc n) =
     (resolveDeeply_body h n (fst (resolvers h n)) (snd (resolvers h n)),
      resolveComponent_body h (fst (resolvers h n)) (snd (resolvers h n)))"

definition resolveDeeply :: "'r Host \<Rightarrow> nat \<Rightarrow> 'r resolveDeeplyT" where
  "resolveDeeply h n = fst (resolvers h n)"

definition resolveComponent :: "'r Host \<Rightarrow> nat \<Rightarrow> 'r resolveComponentT" where
  "resolveComponent h n = snd (resolvers h n)"

section \<open>The entry points\<close>

definition handleComponentTreeRootFailure :: "'r Host \<Rightarrow> error \<Rightarrow> nat \<Rightarrow> ('r Reconciler, unit) M" where
  "handleComponentTreeRootFailure h error evaluatedRootNode =
     bindM (getsM (\<lambda>s. node_name (nodes s evaluatedRootNode))) (\<lambda>nm.
     case error of
       InvariantViolation m \<Rightarrow> throwM error
     | ReconcilerFatalError m node \<Rightarrow> throwM (ReconcilerFatalError m evaluatedRootNode)
     | UnsupportedSideEffect m \<Rightarrow>
         throwM (ReconcilerFatalError
           (''Failed to render React component root '' @ quoted nm @ '' due to '' @ m) evaluatedRootNode)
     | DoNotOptimize m \<Rightarrow>
         throwM (ReconcilerFatalError
           (''Failed to render React component root '' @ quoted nm @ '' due to '' @ m) evaluatedRootNode)
     | Completion val \<Rightarrow>
         bindM (completionMessage h val) (\<lambda>text.
         throwM (ReconcilerFatalError
           (''Failed to render React component '' @ quoted nm @ '' due to a JS error: '' @ text)
           evaluatedRootNode))
     | ExpectedBailOut m \<Rightarrow>
         throwM (ReconcilerFatalError
           (''Failed to optimize React component tree for '' @ quoted nm
            @ '' due to an expected bail-out: '' @ m) evaluatedRootNode)
     | FatalError m \<Rightarrow>
         throwM (ReconcilerFatalError
           (''Failed to optimize React component tree for '' @ quoted nm
            @ '' due to a fatal error during evaluation: '' @ m) evaluatedRootNode)
     | _ \<Rightarrow> throwM error)"

definition handleNestedOptimizedClosuresFromEffects ::
  "'r Effects \<Rightarrow> nat \<Rightarrow> ('r Reconciler, unit) M" where
  "handleNestedOptimizedClosuresFromEffects effects evaluatedNode = modifyM (\<lambda>s.
     s\<lparr>nestedOptimizedClosures := map (\<lambda>closure.
          if length (oc_nestedEffects closure) = 0 then
            closure\<lparr>oc_nestedEffects := oc_nestedEffects closure @ oc_nestedEffects closure @ [effects]\<rparr>
          else closure) (nestedOptimizedClosures s)\<rparr>)"

text \<open>
  \<open>resolveReactComponentTree\<close>. \<open>wrapInGlobalEnv\<close> and \<open>evaluatePure\<close> run their thunk; a
  side effect that \<open>evaluatePure\<close> reports reaches the reconciler as the
  \<open>UnsupportedSideEffect\<close> that \<open>_handleReportedSideEffect\<close> throws from inside a host call.
\<close>

definition resolveReactComponentTree ::
  "'r Host \<Rightarrow> nat \<Rightarrow> Value \<Rightarrow> Value option \<Rightarrow> Value option \<Rightarrow> nat \<Rightarrow> ('r Reconciler, 'r Effects) M" where
  "resolveReactComponentTree h fuel componentType' props context evaluatedRootNode =
     bindM (evaluateForEffects
              (tryCatch
                 (bindM (case props of
                           Some p \<Rightarrow> returnM p
                         | None \<Rightarrow> hostOp h GetInitialProps [componentType']) (\<lambda>initialProps.
                  bindM (case context of
                           Some c \<Rightarrow> returnM c
                         | None \<Rightarrow> hostOp h GetInitialContext [componentType']) (\<lambda>initialContext.
                  bindM (modifyM (\<lambda>s. s\<lparr>alreadyEvaluatedRootNodes :=
                           (alreadyEvaluatedRootNodes s)(componentType' \<mapsto> evaluatedRootNode)\<rparr>)) (\<lambda>_.
                  bindM (resolveComponent h fuel componentType' initialProps initialContext ROOT
                           evaluatedRootNode) (\<lambda>render.
                  bindM incOptimizedTrees (\<lambda>_.
                  returnM (fst render)))))))
                 (\<lambda>error.
                    bindM (handleComponentTreeRootFailure h error evaluatedRootNode) (\<lambda>_.
                    throwM (InvariantViolation
                      ''resolveReactComponentTree error not handled correctly''))))) (\<lambda>effects.
     bindM (handleNestedOptimizedClosuresFromEffects effects evaluatedRootNode) (\<lambda>_.
     returnM effects))"

text \<open>
  Modelled from the spec: \<open>evaluateWithNestedParentEffects\<close> of utils.js, which is not in the
  file. The spec (5): a nested closure and its enclosing fold "share the underlying
  captured-effects chain (explicitly threaded through as an ordered list)": the chain is
  applied to the host state, the thunk runs, and the host state is put back.
\<close>

definition evaluateWithNestedParentEffects ::
  "'r Host \<Rightarrow> 'r Effects list \<Rightarrow> ('r Reconciler, 'a) M \<Rightarrow> ('r Reconciler, 'a) M" where
  "evaluateWithNestedParentEffects h nestedEffects f = (\<lambda>s.
     case f (s\<lparr>realm := h_evaluateWithNestedParentEffects h (realm s) nestedEffects\<rparr>) of
       (c, s') \<Rightarrow> (c, s'\<lparr>realm := realm s\<rparr>))"

definition resolveNestedOptimizedClosure ::
  "'r Host \<Rightarrow> nat \<Rightarrow> Value \<Rightarrow> 'r Effects list \<Rightarrow> Value option \<Rightarrow> Value option \<Rightarrow> nat
   \<Rightarrow> ('r Reconciler, 'r Effects) M" where
  "resolveNestedOptimizedClosure h fuel func0 nestedEffects componentType' context evaluatedNode =
     bindM (evaluateWithNestedParentEffects h nestedEffects (evaluateForEffects
              (bindM (hostOp h WithBaseObject []) (\<lambda>globalBase.
               bindM (if isBoundFunctionValue func0 then
                        bindM (hostRead (\<lambda>r. h_boundThis h r func0)) (\<lambda>boundThis.
                        bindM (hostRead (\<lambda>r. h_boundTargetFunction h r func0)) (\<lambda>target.
                        bindM (invariant (isECMAScriptSourceFunctionValue target) []) (\<lambda>_.
                        returnM (boundThis, target))))
                      else returnM (globalBase, func0)) (\<lambda>(baseObject, func).
               bindM (hostRead (\<lambda>r. h_getLength h r func)) (\<lambda>numArgs.
               bindM (modifyM (\<lambda>s. s\<lparr>alreadyEvaluatedNestedClosures :=
                        insert func (alreadyEvaluatedNestedClosures s)\<rparr>)) (\<lambda>_.
               bindM (invariant (isECMAScriptSourceFunctionValue func) []) (\<lambda>_.
               bindM (hostRead (\<lambda>r. h_formalParameters h r func)) (\<lambda>params.
               bindM (case (numArgs, params) of
                        (Some k, Some parameterIds) \<Rightarrow>
                          if k \<noteq> 0 \<and> k > 0 then
                            mapM parameterIds (\<lambda>parameterId.
                              case parameterId of
                                Identifier nm \<Rightarrow> hostOp h (CreateAbstractArgument nm) [func]
                              | OtherPattern \<Rightarrow>
                                  bindM (hostOp h (HandleError
                                    ''Non-identifier args to additional functions unsupported'') [func])
                                    (\<lambda>_.
                                  throwM (FatalError
                                    ''Non-identifier args to additional functions unsupported'')))
                          else returnM []
                      | _ \<Rightarrow> returnM []) (\<lambda>args.
               tryCatch
                 (bindM (invariant (isObjectValue baseObject \<or> isAbstractObjectValue baseObject
                                    \<or> isUndefinedValue baseObject) []) (\<lambda>_.
                  bindM (getValueFromFunctionCall h func baseObject args) (\<lambda>val.
                  case (componentType', context) of
                    (Some ct, Some cx) \<Rightarrow>
                      bindM (invariant (isObjectValue cx \<or> isAbstractObjectValue cx) []) (\<lambda>_.
                      bindM (resolveDeeply h fuel ct val cx NEW_BRANCH evaluatedNode) (\<lambda>result.
                      bindM incOptimizedNestedClosures (\<lambda>_.
                      returnM result)))
                  | _ \<Rightarrow> throwM (InvariantViolation []))))
                 (\<lambda>error.
                    bindM (handleComponentTreeRootFailure h error evaluatedNode) (\<lambda>_.
                    throwM (InvariantViolation
                      ''resolveNestedOptimizedClosure error not handled correctly'')))))))))))))
       (\<lambda>effects.
     bindM (handleNestedOptimizedClosuresFromEffects effects evaluatedNode) (\<lambda>_.
     returnM effects))"

datatype SideEffectType = MODIFIED_BINDING | MODIFIED_PROPERTY | MODIFIED_GLOBAL | EXCEPTION_THROWN

text \<open>
  \<open>_handleReportedSideEffect\<close>: \<open>binding\<close> is the name of the binding, or the key of the
  property when it is a string; \<open>location\<close> is what \<open>getLocationFromValue\<close> makes of the
  expression location.
\<close>

definition handleReportedSideEffect ::
  "SideEffectType \<Rightarrow> string option \<Rightarrow> string \<Rightarrow> ('s, unit) M" where
  "handleReportedSideEffect sideEffectType binding location =
     (case sideEffectType of
        MODIFIED_BINDING \<Rightarrow>
          throwM (UnsupportedSideEffect (''side-effects from mutating the binding ''
            @ (case binding of None \<Rightarrow> ''unknown'' | Some nm \<Rightarrow> quoted nm) @ location))
      | MODIFIED_PROPERTY \<Rightarrow>
          throwM (UnsupportedSideEffect (''side-effects from mutating a property ''
            @ (case binding of None \<Rightarrow> [] | Some key \<Rightarrow> quoted key) @ location))
      | MODIFIED_GLOBAL \<Rightarrow>
          throwM (UnsupportedSideEffect (''side-effects from mutating the global object property ''
            @ (case binding of None \<Rightarrow> [] | Some key \<Rightarrow> quoted key) @ location))
      | EXCEPTION_THROWN \<Rightarrow>
          throwM (UnsupportedSideEffect (''side-effects from throwing exception'' @ location)))"

section \<open>A small concrete host\<close>

text \<open>
  A host whose state is a table of properties, for running the reconciler on concrete trees:
  \<open>getProperty\<close> and \<open>Get\<close> look a property up (\<open>undefined\<close> when it is missing), a
  function call returns what the table holds under the function's \<open>(returns)\<close> entry, a
  React element is an object whose \<open>$$typeof\<close> is the element symbol, and nothing is abstract
  knowledge of a library.
\<close>

type_synonym table = "((Value \<times> string) \<times> Value) list"

definition lookup :: "table \<Rightarrow> Value \<Rightarrow> string \<Rightarrow> Value" where
  "lookup r ob p = (case map_of r (ob, p) of None \<Rightarrow> UndefinedValue | Some v \<Rightarrow> v)"

definition tableTest :: "HostPredicate \<Rightarrow> table \<Rightarrow> Value \<Rightarrow> bool" where
  "tableTest p r v = (case p of
       IsReactElement \<Rightarrow> lookup r v ''$$typeof'' = SymbolValue 0
     | IsFinalDefined \<Rightarrow> True
     | DoNotOptimizeComponent \<Rightarrow> lookup r v ''__reactCompilerDoNotOptimize'' = BooleanValue True
     | ValueIsClassComponent \<Rightarrow> lookup r v ''isReactComponent'' = BooleanValue True
     | ValuesIsTop \<Rightarrow> True
     | _ \<Rightarrow> False)"

definition tablePerform :: "HostOperation \<Rightarrow> table \<Rightarrow> Value list \<Rightarrow> Value completion \<times> table" where
  "tablePerform op r vs = (case vs of
       [] \<Rightarrow> (Returns UndefinedValue, r)
     | ob # rest \<Rightarrow> (case op of
           HostGet p \<Rightarrow> (Returns (lookup r ob p), r)
         | GetValueFromFunctionCall \<Rightarrow> (Returns (lookup r ob ''(returns)''), r)
         | CreateSimpleClassInstance \<Rightarrow> (Returns ob, r)
         | CreateClassInstanceForFirstRenderOnly \<Rightarrow> (Returns ob, r)
         | _ \<Rightarrow> (Returns ob, r)))"

definition tableSymbol :: "string \<Rightarrow> Value" where
  "tableSymbol nm =
     (if nm = ''react.element'' then SymbolValue 0
      else if nm = ''react.fragment'' then SymbolValue 1
      else if nm = ''react.context'' then SymbolValue 2
      else if nm = ''react.provider'' then SymbolValue 3
      else SymbolValue 4)"

definition tableHost :: "bool \<Rightarrow> bool \<Rightarrow> table Host" where
  "tableHost firstRender nestedFunctions =
     \<lparr>firstRenderOnly = firstRender,
      optimizeNestedFunctions = nestedFunctions,
      test = tableTest,
      perform = tablePerform,
      h_getProperty = lookup,
      h_propertiesHas = (\<lambda>r ob p. map_of r (ob, p) \<noteq> None),
      h_hasDescriptor = (\<lambda>r ob p. map_of r (ob, p) \<noteq> None),
      h_setDescriptorValue = (\<lambda>r ob p v. ((ob, p), v) # r),
      h_enumerableProperties = (\<lambda>r ob. []),
      h_valuesElements = (\<lambda>r ob. []),
      h_args = (\<lambda>r ob. []),
      h_arrayElements = (\<lambda>r ob. []),
      h_abstractHints = (\<lambda>r ob. None),
      h_arrayHints = (\<lambda>r ob. None),
      h_fbLibraries = (\<lambda>r nm. None),
      h_getReactSymbol = (\<lambda>r nm. tableSymbol nm),
      h_getComponentName = (\<lambda>r v. ''Component''),
      h_getLocationFromValue = (\<lambda>r v. []),
      h_hasGenerator = (\<lambda>r. True),
      h_getComponentTypeFromRootValue =
        (\<lambda>r v. (Returns (if isECMAScriptSourceFunctionValue v then Some v else None), r)),
      h_classComponentMetadata = (\<lambda>r v. Some \<lparr>instanceProperties = {''state''}, instanceSymbols = {}\<rparr>),
      h_setClassComponentMetadata = (\<lambda>r v md. r),
      h_evaluateClassConstructor =
        (\<lambda>r c p x. (Returns \<lparr>instanceProperties = {''state''}, instanceSymbols = {}\<rparr>, r)),
      h_createClassInstance = (\<lambda>r c p x md. (Returns c, r)),
      h_boundThis = (\<lambda>r v. UndefinedValue),
      h_boundTargetFunction = (\<lambda>r v. v),
      h_getLength = (\<lambda>r v. Some 0),
      h_formalParameters = (\<lambda>r v. Some []),
      h_joinEffects = (\<lambda>r c e1 e2. (Returns c, r)),
      h_getValueWithBranchingLogicApplied = (\<lambda>r a b v. (Returns v, r)),
      h_evaluateWithNestedParentEffects = (\<lambda>r es. r)\<rparr>"

section \<open>Relations between the state before and after an operation\<close>

text \<open>
  \<open>preserves R m\<close>: whatever \<open>m\<close> does (return, throw, not return), the state it leaves is
  related by \<open>R\<close> to the state it started from.
\<close>

definition preserves :: "('s \<Rightarrow> 's \<Rightarrow> bool) \<Rightarrow> ('s, 'a) M \<Rightarrow> bool" where
  "preserves R m = (\<forall>s. R s (snd (m s)))"

definition isPreorder :: "('s \<Rightarrow> 's \<Rightarrow> bool) \<Rightarrow> bool" where
  "isPreorder R = ((\<forall>s. R s s) \<and> (\<forall>s t u. R s t \<longrightarrow> R t u \<longrightarrow> R s u))"

text \<open>
  What a fold keeps count of is the same in both states: the two counters of the component
  tree state and the root memoization table.
\<close>

definition sameCounters :: "'r Reconciler \<Rightarrow> 'r Reconciler \<Rightarrow> bool" where
  "sameCounters s s' =
     (deadEnds (componentTreeState s') = deadEnds (componentTreeState s)
      \<and> contextNodeReferences (componentTreeState s') = contextNodeReferences (componentTreeState s)
      \<and> alreadyEvaluatedRootNodes s' = alreadyEvaluatedRootNodes s)"

text \<open>A transitive relation that holds at least between states with the same counters.\<close>

definition counterOrder :: "('r Reconciler \<Rightarrow> 'r Reconciler \<Rightarrow> bool) \<Rightarrow> bool" where
  "counterOrder R =
     ((\<forall>s s'. sameCounters s s' \<longrightarrow> R s s') \<and> (\<forall>s t u. R s t \<longrightarrow> R t u \<longrightarrow> R s u))"

text \<open>
  A fold order: a counter order that also holds across the three steps of a fold that change
  what it keeps count of (a dead end more, a root recorded in the memoization table, a
  context provider over children that preserve the order).
\<close>

definition foldOrder :: "('r Reconciler \<Rightarrow> 'r Reconciler \<Rightarrow> bool) \<Rightarrow> bool" where
  "foldOrder R =
     (counterOrder R
      \<and> (\<forall>s. R s (snd (incDeadEnds s)))
      \<and> (\<forall>s c n. R s (s\<lparr>alreadyEvaluatedRootNodes := (alreadyEvaluatedRootNodes s)(c \<mapsto> n)\<rparr>))
      \<and> (\<forall>h rec ct el cx bs n.
            (\<forall>a b c d e. preserves R (rec a b c d e :: ('r Reconciler, Value) M))
            \<longrightarrow> preserves R (resolveContextProviderComponent h rec ct el cx bs n)))"


text \<open>Neither the dead ends nor the reference count of any context object went down.\<close>

definition advances :: "'r Reconciler \<Rightarrow> 'r Reconciler \<Rightarrow> bool" where
  "advances s s' =
     (deadEnds (componentTreeState s) \<le> deadEnds (componentTreeState s')
      \<and> (\<forall>c. referenceCount s c \<le> referenceCount s' c))"

text \<open>As \<open>advances\<close>, with the count of the context object \<open>c\<close> at least one higher.\<close>

definition raised :: "Value \<Rightarrow> 'r Reconciler \<Rightarrow> 'r Reconciler \<Rightarrow> bool" where
  "raised c s s' =
     (deadEnds (componentTreeState s) \<le> deadEnds (componentTreeState s')
      \<and> (\<forall>c'. referenceCount s c' + (if c' = c then 1 else 0) \<le> referenceCount s' c'))"

text \<open>
  \<open>settles c m\<close>: started in a state where the count of \<open>c\<close> is raised over some earlier state,
  \<open>m\<close> ends in a state that advances over that earlier state.
\<close>

definition settles :: "Value \<Rightarrow> ('r Reconciler, 'a) M \<Rightarrow> bool" where
  "settles c m = (\<forall>s0 s. raised c s0 s \<longrightarrow> advances s0 (snd (m s)))"

text \<open>Every reference count is what it was.\<close>

definition sameReferences :: "'r Reconciler \<Rightarrow> 'r Reconciler \<Rightarrow> bool" where
  "sameReferences s s' = (\<forall>c. referenceCount s' c = referenceCount s c)"

text \<open>
  \<open>carries g m g'\<close>: started with the reference counts \<open>g\<close>, a normal return of \<open>m\<close> leaves
  the reference counts \<open>g'\<close>. \<open>bumped g c\<close> is \<open>g\<close> with the count of \<open>c\<close> one higher.
\<close>

definition carries :: "(Value \<Rightarrow> int) \<Rightarrow> ('r Reconciler, 'a) M \<Rightarrow> (Value \<Rightarrow> int) \<Rightarrow> bool" where
  "carries g m g' =
     (\<forall>s v s'. (\<forall>c. referenceCount s c = g c) \<longrightarrow> m s = (Returns v, s')
        \<longrightarrow> (\<forall>c. referenceCount s' c = g' c))"

definition bumped :: "(Value \<Rightarrow> int) \<Rightarrow> Value \<Rightarrow> Value \<Rightarrow> int" where
  "bumped g c = g(c := g c + 1)"

text \<open>
  A tree for the small host: the root component \<open>ECMAScriptSourceFunctionValue 0\<close> renders
  the element \<open>ObjectValue 1\<close>, a context provider (its type is \<open>AbstractObjectValue 2\<close>,
  for the context \<open>ObjectValue 5\<close>) with the props \<open>ObjectValue 3\<close>: the value \<open>v1\<close> and, as
  children, the plain object \<open>ObjectValue 4\<close>, which is not a valid result of a render.
\<close>

definition providerTable :: table where
  "providerTable =
     [((ObjectValue 1, ''$$typeof''), SymbolValue 0),
      ((ObjectValue 1, ''type''), AbstractObjectValue 2),
      ((ObjectValue 1, ''props''), ObjectValue 3),
      ((ObjectValue 1, ''ref''), NullValue),
      ((AbstractObjectValue 2, ''$$typeof''), SymbolValue 3),
      ((AbstractObjectValue 2, ''context''), ObjectValue 5),
      ((ObjectValue 5, ''currentValue''), StringValue ''default''),
      ((ObjectValue 3, ''value''), StringValue ''v1''),
      ((ObjectValue 3, ''children''), ObjectValue 4),
      ((ECMAScriptSourceFunctionValue 0, ''(returns)''), ObjectValue 1)]"

text \<open>A reconciler over a table, with the report node \<open>0\<close> of the root already made.\<close>

definition startWith :: "table \<Rightarrow> table Reconciler" where
  "startWith r = snd (createReactEvaluatedNode NORMAL ''Root'' (newReconciler r))"

definition providerTextTable :: table where
  "providerTextTable =
     [((ObjectValue 1, ''$$typeof''), SymbolValue 0),
      ((ObjectValue 1, ''type''), AbstractObjectValue 2),
      ((ObjectValue 1, ''props''), ObjectValue 3),
      ((ObjectValue 1, ''ref''), NullValue),
      ((AbstractObjectValue 2, ''$$typeof''), SymbolValue 3),
      ((AbstractObjectValue 2, ''context''), ObjectValue 5),
      ((ObjectValue 5, ''currentValue''), StringValue ''default''),
      ((ObjectValue 3, ''value''), StringValue ''v1''),
      ((ObjectValue 3, ''children''), StringValue ''text''),
      ((ECMAScriptSourceFunctionValue 0, ''(returns)''), ObjectValue 1)]"

definition doNotOptimizeTable :: table where
  "doNotOptimizeTable =
     [((ObjectValue 1, ''$$typeof''), SymbolValue 0),
      ((ObjectValue 1, ''type''), ECMAScriptSourceFunctionValue 0),
      ((ObjectValue 1, ''props''), ObjectValue 3),
      ((ObjectValue 1, ''ref''), NullValue),
      ((ECMAScriptSourceFunctionValue 0, ''__reactCompilerDoNotOptimize''), BooleanValue True)]"


definition classTable :: table where
  "classTable =
     [((ECMAScriptSourceFunctionValue 0, ''isReactComponent''), BooleanValue True),
      ((ECMAScriptSourceFunctionValue 0, ''render''), ECMAScriptSourceFunctionValue 8),
      ((ECMAScriptSourceFunctionValue 8, ''(returns)''), StringValue ''text'')]"

definition abstractPropsTable :: table where
  "abstractPropsTable =
     [((ObjectValue 1, ''$$typeof''), SymbolValue 0),
      ((ObjectValue 1, ''type''), AbstractObjectValue 2),
      ((ObjectValue 1, ''props''), AbstractObjectValue 3),
      ((ObjectValue 1, ''ref''), NullValue),
      ((AbstractObjectValue 2, ''$$typeof''), SymbolValue 3),
      ((AbstractObjectValue 2, ''context''), ObjectValue 5),
      ((ObjectValue 5, ''currentValue''), StringValue ''default''),
      ((AbstractObjectValue 3, ''value''), StringValue ''v1''),
      ((AbstractObjectValue 3, ''children''), StringValue ''text'')]"

definition recursiveClassTable :: table where
  "recursiveClassTable =
     [((ECMAScriptSourceFunctionValue 0, ''isReactComponent''), BooleanValue True),
      ((ECMAScriptSourceFunctionValue 0, ''render''), ECMAScriptSourceFunctionValue 8),
      ((ECMAScriptSourceFunctionValue 8, ''(returns)''), ObjectValue 1),
      ((ObjectValue 1, ''$$typeof''), SymbolValue 0),
      ((ObjectValue 1, ''type''), ECMAScriptSourceFunctionValue 0),
      ((ObjectValue 1, ''props''), ObjectValue 3),
      ((ObjectValue 1, ''ref''), NullValue)]"






section \<open>Properties\<close>

subsection \<open>Rules for \<open>preserves\<close>\<close>

lemma preservesD: "preserves R m \<Longrightarrow> m s = (c, s') \<Longrightarrow> R s s'"
  by (auto simp: preserves_def dest: spec[of _ s])

lemma isPreorder_refl: "isPreorder R \<Longrightarrow> R s s"
  by (simp add: isPreorder_def)

lemma isPreorder_trans: "isPreorder R \<Longrightarrow> R s t \<Longrightarrow> R t u \<Longrightarrow> R s u"
  unfolding isPreorder_def by blast

lemma counterOrder_isPreorder: "counterOrder R \<Longrightarrow> isPreorder R"
  unfolding counterOrder_def isPreorder_def sameCounters_def by blast

named_theorems preserves_intros
named_theorems counter_intros

lemma preserves_returnM [preserves_intros]: "isPreorder R \<Longrightarrow> preserves R (returnM a)"
  by (simp add: preserves_def returnM_def isPreorder_refl)

lemma preserves_throwM [preserves_intros]: "isPreorder R \<Longrightarrow> preserves R (throwM e)"
  by (simp add: preserves_def throwM_def isPreorder_refl)

lemma preserves_divergeM [preserves_intros]: "isPreorder R \<Longrightarrow> preserves R divergeM"
  by (simp add: preserves_def divergeM_def isPreorder_refl)

lemma preserves_getsM [preserves_intros]: "isPreorder R \<Longrightarrow> preserves R (getsM f)"
  by (simp add: preserves_def getsM_def isPreorder_refl)

lemma preserves_invariant [preserves_intros]: "isPreorder R \<Longrightarrow> preserves R (invariant c m)"
  unfolding invariant_def by (cases c) (simp_all add: preserves_returnM preserves_throwM)

lemma preserves_hostRead [preserves_intros]: "isPreorder R \<Longrightarrow> preserves R (hostRead f)"
  by (simp add: preserves_def hostRead_def isPreorder_refl)

lemma preserves_bindM [preserves_intros]:
  assumes "isPreorder R" and "preserves R m" and "\<And>a. preserves R (f a)"
  shows "preserves R (bindM m f)"
proof -
  have "R s (snd (bindM m f s))" for s
  proof (cases "m s")
    case (Pair c t)
    have st: "R s t" using assms(2) Pair by (rule preservesD)
    show ?thesis
    proof (cases c)
      case (Returns a)
      have "R t (snd (f a t))" using assms(3)[of a] by (simp add: preserves_def)
      then have "R s (snd (f a t))" using assms(1) st by (blast intro: isPreorder_trans)
      then show ?thesis using Pair Returns by (simp add: bindM_def)
    qed (use st Pair in \<open>auto simp: bindM_def\<close>)
  qed
  then show ?thesis by (simp add: preserves_def)
qed

lemma preserves_tryCatch [preserves_intros]:
  assumes "isPreorder R" and "preserves R m" and "\<And>e. preserves R (f e)"
  shows "preserves R (tryCatch m f)"
proof -
  have "R s (snd (tryCatch m f s))" for s
  proof (cases "m s")
    case (Pair c t)
    have st: "R s t" using assms(2) Pair by (rule preservesD)
    show ?thesis
    proof (cases c)
      case (Throws e)
      have "R t (snd (f e t))" using assms(3)[of e] by (simp add: preserves_def)
      then have "R s (snd (f e t))" using assms(1) st by (blast intro: isPreorder_trans)
      then show ?thesis using Pair Throws by (simp add: tryCatch_def)
    qed (use st Pair in \<open>auto simp: tryCatch_def\<close>)
  qed
  then show ?thesis by (simp add: preserves_def)
qed

lemma preserves_forEachM [preserves_intros]:
  "isPreorder R \<Longrightarrow> (\<And>x. preserves R (f x)) \<Longrightarrow> preserves R (forEachM xs f)"
  by (induction xs) (auto intro!: preserves_bindM preserves_returnM)

lemma preserves_mapM [preserves_intros]:
  "isPreorder R \<Longrightarrow> (\<And>x. preserves R (f x)) \<Longrightarrow> preserves R (mapM xs f)"
  by (induction xs) (auto intro!: preserves_bindM preserves_returnM)

text \<open>Case distinctions of the program are case distinctions of the proof.\<close>

lemma preserves_if:
  "(c \<Longrightarrow> preserves R a) \<Longrightarrow> (\<not> c \<Longrightarrow> preserves R b) \<Longrightarrow> preserves R (if c then a else b)"
  by simp

lemma preserves_case_option:
  "(x = None \<Longrightarrow> preserves R a) \<Longrightarrow> (\<And>y. x = Some y \<Longrightarrow> preserves R (b y))
   \<Longrightarrow> preserves R (case x of None \<Rightarrow> a | Some y \<Rightarrow> b y)"
  by (cases x) auto

lemma preserves_case_list:
  "(x = [] \<Longrightarrow> preserves R a) \<Longrightarrow> (\<And>y ys. x = y # ys \<Longrightarrow> preserves R (b y ys))
   \<Longrightarrow> preserves R (case x of [] \<Rightarrow> a | y # ys \<Rightarrow> b y ys)"
  by (cases x) auto

lemma preserves_case_sum:
  "(\<And>y. x = Inl y \<Longrightarrow> preserves R (a y)) \<Longrightarrow> (\<And>y. x = Inr y \<Longrightarrow> preserves R (b y))
   \<Longrightarrow> preserves R (case x of Inl y \<Rightarrow> a y | Inr y \<Rightarrow> b y)"
  by (cases x) auto

lemma preserves_case_prod:
  "(\<And>a b. x = (a, b) \<Longrightarrow> preserves R (f a b)) \<Longrightarrow> preserves R (case x of (a, b) \<Rightarrow> f a b)"
  by (cases x) auto

lemmas preserves_cases =
  preserves_if preserves_case_option preserves_case_list preserves_case_sum preserves_case_prod

subsection \<open>Operations that leave the counters alone\<close>

lemma counterOrder_same: "counterOrder R \<Longrightarrow> sameCounters s s' \<Longrightarrow> R s s'"
  by (simp add: counterOrder_def)

lemma preserves_modify_other:
  assumes "counterOrder R" and "\<And>s. sameCounters s (f s)"
  shows "preserves R (modifyM f)"
  using assms by (simp add: preserves_def modifyM_def counterOrder_same)

lemma preserves_sameCounters:
  assumes "counterOrder R" and "\<And>s. sameCounters s (snd (m s))"
  shows "preserves R m"
  using assms by (simp add: preserves_def counterOrder_same)

lemma preserves_hostRun [counter_intros]: "counterOrder R \<Longrightarrow> preserves R (hostRun f)"
  by (rule preserves_sameCounters) (simp_all add: hostRun_def sameCounters_def split: prod.splits)

lemma preserves_hostWrite [counter_intros]: "counterOrder R \<Longrightarrow> preserves R (hostWrite f)"
  by (rule preserves_sameCounters) (simp_all add: hostWrite_def sameCounters_def)

lemma preserves_hostTest [counter_intros]: "counterOrder R \<Longrightarrow> preserves R (hostTest h p v)"
  unfolding hostTest_def by (rule preserves_hostRead) (rule counterOrder_isPreorder)

lemma preserves_hostOp [counter_intros]: "counterOrder R \<Longrightarrow> preserves R (hostOp h op vs)"
  unfolding hostOp_def by (rule preserves_hostRun)

lemma preserves_getProperty [counter_intros]: "counterOrder R \<Longrightarrow> preserves R (getProperty h ob p)"
  unfolding getProperty_def by (rule preserves_hostRead) (rule counterOrder_isPreorder)

lemma preserves_Get [counter_intros]: "counterOrder R \<Longrightarrow> preserves R (Get h ob p)"
  unfolding Get_def by (rule preserves_hostOp)

lemma preserves_getValueFromFunctionCall [counter_intros]:
  "counterOrder R \<Longrightarrow> preserves R (getValueFromFunctionCall h f t a)"
  unfolding getValueFromFunctionCall_def by (rule preserves_hostOp)

lemma preserves_getComponentName [counter_intros]: "counterOrder R \<Longrightarrow> preserves R (getComponentName h v)"
  unfolding getComponentName_def by (rule preserves_hostRead) (rule counterOrder_isPreorder)

lemma preserves_createReactEvaluatedNode [counter_intros]:
  "counterOrder R \<Longrightarrow> preserves R (createReactEvaluatedNode st nm)"
  by (rule preserves_sameCounters) (simp_all add: createReactEvaluatedNode_def sameCounters_def)

lemma preserves_pushChild [counter_intros]: "counterOrder R \<Longrightarrow> preserves R (pushChild a b)"
  unfolding pushChild_def by (rule preserves_modify_other) (simp_all add: sameCounters_def)

lemma preserves_setNodeStatus [counter_intros]: "counterOrder R \<Longrightarrow> preserves R (setNodeStatus a b)"
  unfolding setNodeStatus_def by (rule preserves_modify_other) (simp_all add: sameCounters_def)

lemma preserves_setNodeMessage [counter_intros]: "counterOrder R \<Longrightarrow> preserves R (setNodeMessage a b)"
  unfolding setNodeMessage_def by (rule preserves_modify_other) (simp_all add: sameCounters_def)

lemma preserves_incComponentsEvaluated [counter_intros]:
  "counterOrder R \<Longrightarrow> preserves R incComponentsEvaluated"
  unfolding incComponentsEvaluated_def by (rule preserves_modify_other) (simp_all add: sameCounters_def)

lemma preserves_incInlinedComponents [counter_intros]:
  "counterOrder R \<Longrightarrow> preserves R incInlinedComponents"
  unfolding incInlinedComponents_def by (rule preserves_modify_other) (simp_all add: sameCounters_def)

lemma preserves_incOptimizedTrees [counter_intros]:
  "counterOrder R \<Longrightarrow> preserves R incOptimizedTrees"
  unfolding incOptimizedTrees_def by (rule preserves_modify_other) (simp_all add: sameCounters_def)

lemma preserves_incOptimizedNestedClosures [counter_intros]:
  "counterOrder R \<Longrightarrow> preserves R incOptimizedNestedClosures"
  unfolding incOptimizedNestedClosures_def by (rule preserves_modify_other) (simp_all add: sameCounters_def)

lemma preserves_assignBailOutMessage [counter_intros]:
  "counterOrder R \<Longrightarrow> preserves R (assignBailOutMessage e m)"
  unfolding assignBailOutMessage_def
  by (rule preserves_modify_other) (simp_all add: sameCounters_def split: option.splits)

lemma preserves_queueOptimizedClosure [counter_intros]:
  "counterOrder R \<Longrightarrow> preserves R (queueOptimizedClosure h f n c x)"
  by (rule preserves_sameCounters)
     (simp_all add: queueOptimizedClosure_def modifyM_def returnM_def sameCounters_def)

lemma preserves_hasEvaluatedRootNode [counter_intros]:
  "counterOrder R \<Longrightarrow> preserves R (hasEvaluatedRootNode c n)"
  by (rule preserves_sameCounters)
     (simp_all add: hasEvaluatedRootNode_def sameCounters_def split: option.splits)

lemma preserves_hasReferenceForContextNode [counter_intros]:
  "counterOrder R \<Longrightarrow> preserves R (hasReferenceForContextNode c)"
  unfolding hasReferenceForContextNode_def by (rule preserves_getsM) (rule counterOrder_isPreorder)

lemma preserves_handleNested [counter_intros]:
  "counterOrder R \<Longrightarrow> preserves R (handleNestedOptimizedClosuresFromEffects e n)"
  unfolding handleNestedOptimizedClosuresFromEffects_def
  by (rule preserves_modify_other) (simp_all add: sameCounters_def)

lemma preserves_evaluateForEffects:
  assumes "counterOrder R" and "preserves R f"
  shows "preserves R (evaluateForEffects f)"
proof -
  have "R s (snd (evaluateForEffects f s))" for s
  proof -
    have 1: "R s (snd (f s))" using assms(2) by (simp add: preserves_def)
    have "sameCounters (snd (f s)) (snd (evaluateForEffects f s))"
      by (cases "f s") (auto simp: evaluateForEffects_def sameCounters_def split: completion.splits)
    then have 2: "R (snd (f s)) (snd (evaluateForEffects f s))"
      by (rule counterOrder_same[OF assms(1)])
    show ?thesis using assms(1) 1 2 by (blast intro: isPreorder_trans counterOrder_isPreorder)
  qed
  then show ?thesis by (simp add: preserves_def)
qed

lemma preserves_withNested:
  assumes "counterOrder R" and "preserves R f"
  shows "preserves R (evaluateWithNestedParentEffects h es f)"
proof -
  have "R s (snd (evaluateWithNestedParentEffects h es f s))" for s
  proof -
    let ?s1 = "s\<lparr>realm := h_evaluateWithNestedParentEffects h (realm s) es\<rparr>"
    have "sameCounters s ?s1" by (simp add: sameCounters_def)
    then have 0: "R s ?s1" by (rule counterOrder_same[OF assms(1)])
    have 1: "R ?s1 (snd (f ?s1))" using assms(2) by (simp add: preserves_def)
    have "sameCounters (snd (f ?s1)) (snd (evaluateWithNestedParentEffects h es f s))"
      by (cases "f ?s1") (auto simp: evaluateWithNestedParentEffects_def sameCounters_def)
    then have 2: "R (snd (f ?s1)) (snd (evaluateWithNestedParentEffects h es f s))"
      by (rule counterOrder_same[OF assms(1)])
    show ?thesis using assms(1) 0 1 2 by (blast intro: isPreorder_trans counterOrder_isPreorder)
  qed
  then show ?thesis by (simp add: preserves_def)
qed

lemmas counter_rules =
  counterOrder_isPreorder preserves_intros counter_intros preserves_cases

lemma preserves_setContextCurrentValue:
  "counterOrder R \<Longrightarrow> preserves R (setContextCurrentValue h c v)"
  unfolding setContextCurrentValue_def by (intro counter_rules) assumption+

lemma preserves_hostChildren:
  assumes "counterOrder R" and "\<And>a b c d e. preserves R (rec a b c d e)"
  shows "preserves R (resolveReactElementHostChildren h rec ct el cx bs n)"
  unfolding resolveReactElementHostChildren_def
  by (intro counter_rules assms(2)) (rule assms(1))+


subsection \<open>Every operation of a fold preserves a fold order\<close>

lemma foldOrder_counter: "foldOrder R \<Longrightarrow> counterOrder R"
  by (simp add: foldOrder_def)

lemma foldOrder_isPreorder: "foldOrder R \<Longrightarrow> isPreorder R"
  by (simp add: foldOrder_def counterOrder_isPreorder)

lemma fold_incDeadEnds: "foldOrder R \<Longrightarrow> preserves R incDeadEnds"
  by (simp add: foldOrder_def preserves_def)

lemma fold_recordRoot:
  "foldOrder R \<Longrightarrow> preserves R (modifyM (\<lambda>s. s\<lparr>alreadyEvaluatedRootNodes :=
     (alreadyEvaluatedRootNodes s)(c \<mapsto> n)\<rparr>))"
  by (simp add: foldOrder_def preserves_def modifyM_def)

lemma fold_provider:
  assumes "foldOrder R" and "\<And>a b c d e. preserves R (rec a b c d e)"
  shows "preserves R (resolveContextProviderComponent h rec ct el cx bs n)"
  using assms unfolding foldOrder_def by blast

lemmas fold_basic =
  preserves_intros[OF foldOrder_isPreorder]
  counter_intros[OF foldOrder_counter]
  preserves_setContextCurrentValue[OF foldOrder_counter]
  preserves_modify_other[OF foldOrder_counter]
  preserves_evaluateForEffects[OF foldOrder_counter]
  preserves_withNested[OF foldOrder_counter]
  preserves_hostChildren[OF foldOrder_counter]
  fold_incDeadEnds fold_recordRoot

lemma fold_queueNewComponentTree:
  assumes R: "foldOrder R"
  shows "preserves R (queueNewComponentTree h r n p c)"
  unfolding queueNewComponentTree_def
  by (intro fold_basic[OF R] preserves_cases) (simp add: sameCounters_def)

lemma fold_reportNewTree:
  assumes R: "foldOrder R"
  shows "preserves R (reportNewTree h v n)"
  unfolding reportNewTree_def by (intro fold_basic[OF R] fold_queueNewComponentTree[OF R])

lemma fold_find_body:
  assumes R: "foldOrder R" and "\<And>a b c d e. preserves R (rec a b c d e)"
  shows "preserves R (findReactComponentTrees_body h rec v n t c x)"
  unfolding findReactComponentTrees_body_def
  by (intro fold_basic[OF R] preserves_cases fold_reportNewTree[OF R] assms(2))

lemma fold_findReactComponentTrees:
  assumes R: "foldOrder R"
  shows "preserves R (findReactComponentTrees h k v n t c x)"
proof (induction k arbitrary: v n t c x)
  case 0 show ?case by (simp add: fold_basic[OF R])
next
  case (Suc k) show ?case by (simp add: fold_find_body[OF R] Suc)
qed

lemmas fold_more = fold_basic fold_queueNewComponentTree fold_findReactComponentTrees

lemma fold_resolveSimpleClassComponent:
  assumes R: "foldOrder R"
  shows "preserves R (resolveSimpleClassComponent h c p x b n)"
  unfolding resolveSimpleClassComponent_def by (intro fold_basic[OF R])

lemma fold_resolveFunctionalComponent:
  assumes R: "foldOrder R"
  shows "preserves R (resolveFunctionalComponent h c p x n)"
  unfolding resolveFunctionalComponent_def by (intro fold_basic[OF R])

lemma fold_getClassComponentMetadata:
  assumes R: "foldOrder R"
  shows "preserves R (getClassComponentMetadata h c p x)"
  unfolding getClassComponentMetadata_def by (intro fold_basic[OF R] preserves_cases)

lemma fold_resolveClassComponentForFirstRenderOnly:
  assumes R: "foldOrder R"
  shows "preserves R (resolveClassComponentForFirstRenderOnly h c p x b n)"
  unfolding resolveClassComponentForFirstRenderOnly_def by (intro fold_basic[OF R] preserves_cases)

lemma fold_resolveComplexClassComponent:
  assumes R: "foldOrder R"
  shows "preserves R (resolveComplexClassComponent h c p x md b n)"
  unfolding resolveComplexClassComponent_def
  by (intro fold_more[OF R] preserves_cases) (simp_all add: sameCounters_def)

lemma fold_resolveClassComponent:
  assumes R: "foldOrder R"
  shows "preserves R (resolveClassComponent h c p x b n)"
  unfolding resolveClassComponent_def
  by (auto intro!: fold_basic[OF R] preserves_cases fold_getClassComponentMetadata[OF R]
      fold_resolveSimpleClassComponent[OF R] fold_resolveComplexClassComponent[OF R]
      split: error.splits)

lemma fold_consumer:
  assumes R: "foldOrder R"
  shows "preserves R (resolveContextConsumerComponent h k ct el cx n)"
  unfolding resolveContextConsumerComponent_def by (intro fold_more[OF R] preserves_cases)

lemma fold_forwardRef:
  assumes R: "foldOrder R" and "\<And>a b c d e. preserves R (rec a b c d e)"
  shows "preserves R (resolveForwardRefComponent h rec ct el cx bs n)"
  unfolding resolveForwardRefComponent_def
  by (auto intro!: fold_basic[OF R] preserves_cases assms(2) split: option.splits ReactHint.splits)

lemma fold_queryRenderer:
  assumes R: "foldOrder R"
  shows "preserves R (resolveRelayQueryRendererComponent h k ct el cx n)"
  unfolding resolveRelayQueryRendererComponent_def by (intro fold_more[OF R] preserves_cases)

lemma fold_relayContainer:
  assumes R: "foldOrder R" and "\<And>a b c d e. preserves R (recC a b c d e)"
  shows "preserves R (resolveRelayContainer h recC hint p cx bs n)"
  unfolding resolveRelayContainer_def
  by (intro fold_basic[OF R] preserves_cases assms(2)) (simp add: sameCounters_def)

lemma fold_resolveComponent_body:
  assumes R: "foldOrder R" and "\<And>a b c d e. preserves R (recD a b c d e)"
    and "\<And>a b c d e. preserves R (recC a b c d e)"
  shows "preserves R (resolveComponent_body h recD recC ct p cx bs n)"
  unfolding resolveComponent_body_def
  by (intro fold_more[OF R] preserves_cases assms(2,3) fold_relayContainer[OF R]
      fold_resolveClassComponent[OF R] fold_resolveClassComponentForFirstRenderOnly[OF R]
      fold_resolveFunctionalComponent[OF R])

lemma fold_strategy:
  assumes R: "foldOrder R"
  shows "preserves R (getComponentResolutionStrategy h v)"
  unfolding getComponentResolutionStrategy_def by (intro fold_basic[OF R] preserves_cases)

lemma fold_portal:
  assumes R: "foldOrder R" and "\<And>a b c d e. preserves R (rec a b c d e)"
  shows "preserves R (resolveReactDomPortal h rec node args ct cx bs n)"
  unfolding resolveReactDomPortal_def
  by (auto intro!: fold_basic[OF R] preserves_cases assms(2) split: list.splits)

lemma fold_conditional:
  assumes R: "foldOrder R" and "\<And>a b c d e. preserves R (rec a b c d e)"
  shows "preserves R (resolveAbstractConditionalValue h rec ct cond a b cx n)"
  unfolding resolveAbstractConditionalValue_def evaluateWithAbstractConditional_def
  by (intro fold_basic[OF R] preserves_cases assms(2))

lemma fold_abstractValue:
  assumes R: "foldOrder R" and "\<And>a b c d e. preserves R (rec a b c d e)"
  shows "preserves R (resolveAbstractValue h rec ct v cx bs n)"
  unfolding resolveAbstractValue_def
  by (auto intro!: fold_more[OF R] preserves_cases fold_conditional[OF R] fold_portal[OF R] assms(2)
      split: list.splits)

lemma fold_resolveArray:
  assumes R: "foldOrder R" and "\<And>a b c d e. preserves R (rec a b c d e)"
  shows "preserves R (resolveArray h rec ct v cx bs n)"
  unfolding resolveArray_def mapArrayValue_def
  by (intro fold_basic[OF R] preserves_cases assms(2))

lemma fold_unknownType:
  assumes R: "foldOrder R"
  shows "preserves R (resolveUnknownComponentType h k el n)"
  unfolding resolveUnknownComponentType_def by (intro fold_more[OF R] preserves_cases)

lemma fold_badRef:
  assumes R: "foldOrder R"
  shows "preserves R (resolveReactElementBadRef h k el n)"
  unfolding resolveReactElementBadRef_def by (intro fold_more[OF R])

lemma fold_undefinedRender:
  assumes R: "foldOrder R"
  shows "preserves R (resolveReactElementUndefinedRender h k el n bs)"
  unfolding resolveReactElementUndefinedRender_def by (intro fold_more[OF R])

lemma fold_fragment:
  assumes R: "foldOrder R" and "\<And>a b c d e. preserves R (rec a b c d e)"
  shows "preserves R (resolveFragmentComponent h rec ct el cx bs n)"
  unfolding resolveFragmentComponent_def
  by (intro fold_basic[OF R] preserves_cases assms(2))

lemma fold_completionMessage:
  assumes R: "foldOrder R"
  shows "preserves R (completionMessage h v)"
  unfolding completionMessage_def
  by (auto intro!: fold_basic[OF R] split: Value.splits)

lemma fold_failure:
  assumes R: "foldOrder R"
  shows "preserves R (resolveComponentResolutionFailure h k e el n bs)"
  unfolding resolveComponentResolutionFailure_def
  by (cases e) (auto intro!: fold_more[OF R] fold_completionMessage[OF R])

lemma fold_resolveReactElement:
  assumes R: "foldOrder R" and "\<And>a b c d e. preserves R (recD a b c d e)"
    and "\<And>a b c d e. preserves R (recC a b c d e)"
  shows "preserves R (resolveReactElement h k recD recC ct el cx bs n)"
  unfolding resolveReactElement_def
  by (auto intro!: fold_more[OF R] preserves_cases fold_fragment[OF R] fold_provider[OF R]
      fold_forwardRef[OF R] fold_strategy[OF R] fold_badRef[OF R] fold_unknownType[OF R]
      fold_queryRenderer[OF R] fold_consumer[OF R] fold_undefinedRender[OF R] fold_failure[OF R]
      assms(2,3) split: ComponentResolutionStrategy.splits)

lemma fold_resolveDeeply_body:
  assumes R: "foldOrder R" and "\<And>a b c d e. preserves R (recD a b c d e)"
    and "\<And>a b c d e. preserves R (recC a b c d e)"
  shows "preserves R (resolveDeeply_body h k recD recC ct v cx bs n)"
  unfolding resolveDeeply_body_def
  by (intro fold_basic[OF R] preserves_cases fold_abstractValue[OF R] fold_resolveArray[OF R]
      fold_resolveReactElement[OF R] assms(2,3))

lemma fold_resolvers:
  assumes R: "foldOrder R"
  shows "preserves R (fst (resolvers h k) a b c d e) \<and> preserves R (snd (resolvers h k) a b c d e)"
proof (induction k arbitrary: a b c d e)
  case 0 show ?case by (simp add: fold_basic[OF R])
next
  case (Suc k)
  show ?case
    by (simp add: fold_resolveDeeply_body[OF R] fold_resolveComponent_body[OF R] Suc)
qed

lemma fold_resolveDeeply: "foldOrder R \<Longrightarrow> preserves R (resolveDeeply h k a b c d e)"
  by (simp add: resolveDeeply_def fold_resolvers)

lemma fold_resolveComponent: "foldOrder R \<Longrightarrow> preserves R (resolveComponent h k a b c d e)"
  by (simp add: resolveComponent_def fold_resolvers)

lemma fold_rootFailure:
  assumes R: "foldOrder R"
  shows "preserves R (handleComponentTreeRootFailure h e n)"
  unfolding handleComponentTreeRootFailure_def
  by (cases e) (auto intro!: fold_basic[OF R] fold_completionMessage[OF R])

lemma fold_resolveReactComponentTree:
  assumes R: "foldOrder R"
  shows "preserves R (resolveReactComponentTree h k c p x n)"
  unfolding resolveReactComponentTree_def
  by (intro fold_basic[OF R] preserves_cases fold_resolveComponent[OF R] fold_rootFailure[OF R])

lemma fold_resolveNestedOptimizedClosure:
  assumes R: "foldOrder R"
  shows "preserves R (resolveNestedOptimizedClosure h k f es c x n)"
  unfolding resolveNestedOptimizedClosure_def
  by (auto intro!: fold_basic[OF R] preserves_cases fold_resolveDeeply[OF R] fold_rootFailure[OF R]
      simp: sameCounters_def split: BabelNode.splits option.splits)

subsection \<open>Dead ends and reference counts never go down\<close>

lemma counterOrder_advances: "counterOrder advances"
proof -
  have "advances s s'" if "sameCounters s s'" for s s' :: "'a Reconciler"
    using that by (simp add: advances_def sameCounters_def referenceCount_def)
  moreover have "advances s u" if "advances s t" "advances t u" for s t u :: "'a Reconciler"
    using that unfolding advances_def by (meson order_trans)
  ultimately show ?thesis unfolding counterOrder_def by blast
qed

lemma advances_trans: "advances s t \<Longrightarrow> advances t u \<Longrightarrow> advances s u"
  unfolding advances_def by (meson order_trans)

lemmas advances_rules =
  preserves_intros[OF counterOrder_isPreorder[OF counterOrder_advances]]
  counter_intros[OF counterOrder_advances]
  preserves_setContextCurrentValue[OF counterOrder_advances]
  preserves_hostChildren[OF counterOrder_advances]
  preserves_cases

text \<open>The provider: the increment before the children is undone by the decrement after them.\<close>

lemma raised_advances: "raised c s0 s \<Longrightarrow> advances s s' \<Longrightarrow> raised c s0 s'"
  unfolding raised_def advances_def by (meson order_trans)

lemma raised_imp_advances:
  assumes "raised c s0 s"
  shows "advances s0 s"
proof -
  have "referenceCount s0 c' \<le> referenceCount s c'" for c'
  proof -
    have "referenceCount s0 c' + (if c' = c then 1 else 0) \<le> referenceCount s c'"
      using assms by (simp add: raised_def)
    then show ?thesis by (simp split: if_splits)
  qed
  then show ?thesis using assms by (simp add: raised_def advances_def)
qed

lemma settles_preserves:
  assumes "preserves advances m"
  shows "settles c m"
proof -
  have "advances s0 (snd (m s))" if "raised c s0 s" for s0 s
  proof -
    have "advances s (snd (m s))" using assms by (simp add: preserves_def)
    then show ?thesis using that by (blast intro: raised_advances raised_imp_advances)
  qed
  then show ?thesis by (simp add: settles_def)
qed

lemma settles_returnM: "settles c (returnM a)"
  by (intro settles_preserves advances_rules)

lemma settles_if: "(b \<Longrightarrow> settles c x) \<Longrightarrow> (\<not> b \<Longrightarrow> settles c y) \<Longrightarrow> settles c (if b then x else y)"
  by simp

lemma settles_bindM:
  assumes "preserves advances m" and "\<And>a. settles c (f a)"
  shows "settles c (bindM m f)"
proof -
  have "advances s0 (snd (bindM m f s))" if r: "raised c s0 s" for s0 s
  proof (cases "m s")
    case (Pair k t)
    have "advances s t" using assms(1) Pair by (rule preservesD)
    then have rt: "raised c s0 t" using r by (rule raised_advances[rotated])
    show ?thesis
    proof (cases k)
      case (Returns a)
      then show ?thesis using assms(2)[of a] rt Pair by (auto simp: bindM_def settles_def)
    qed (use rt Pair in \<open>auto simp: bindM_def intro: raised_imp_advances\<close>)
  qed
  then show ?thesis by (simp add: settles_def)
qed

lemma raised_decremement:
  assumes "raised c s0 s"
  shows "advances s0 (snd (decremementReferenceForContextNode c s))"
proof -
  let ?t = "snd (decremementReferenceForContextNode c s)"
  have de: "deadEnds (componentTreeState ?t) = deadEnds (componentTreeState s)"
    by (simp add: decremementReferenceForContextNode_def modifyM_def)
  have other: "referenceCount ?t c' = referenceCount s c'" if "c' \<noteq> c" for c'
    using that by (simp add: decremementReferenceForContextNode_def modifyM_def referenceCount_def)
  have self: "referenceCount s c - 1 \<le> referenceCount ?t c"
    by (simp add: decremementReferenceForContextNode_def modifyM_def referenceCount_def
        split: option.splits)
  have "referenceCount s0 c' \<le> referenceCount ?t c'" for c'
  proof (cases "c' = c")
    case True
    have "referenceCount s0 c + 1 \<le> referenceCount s c"
      using assms by (auto simp: raised_def dest: spec[of _ c])
    then show ?thesis using self True by simp
  next
    case False
    have "referenceCount s0 c' \<le> referenceCount s c'"
      using assms False by (auto simp: raised_def dest: spec[of _ c'])
    then show ?thesis using other[OF False] by simp
  qed
  then show ?thesis using assms de by (simp add: advances_def raised_def)
qed

lemma settles_decremement_bindM:
  assumes "\<And>a. preserves advances (f a)"
  shows "settles c (bindM (decremementReferenceForContextNode c) f)"
proof -
  have "advances s0 (snd (bindM (decremementReferenceForContextNode c) f s))"
    if r: "raised c s0 s" for s0 s
  proof -
    obtain t where t: "decremementReferenceForContextNode c s = (Returns (), t)"
      by (simp add: decremementReferenceForContextNode_def modifyM_def)
    have "advances s0 t" using raised_decremement[OF r] t by simp
    moreover have "advances t (snd (f () t))" using assms[of "()"] by (simp add: preserves_def)
    ultimately show ?thesis using t by (auto simp: bindM_def intro: advances_trans)
  qed
  then show ?thesis by (simp add: settles_def)
qed

lemma advances_incremement_bindM:
  assumes "settles c t"
  shows "preserves advances (bindM (incremementReferenceForContextNode c) (\<lambda>_. t))"
proof -
  have "advances s (snd (bindM (incremementReferenceForContextNode c) (\<lambda>_. t) s))" for s
  proof -
    obtain u where u: "incremementReferenceForContextNode c s = (Returns (), u)"
      by (simp add: incremementReferenceForContextNode_def modifyM_def)
    have "raised c s u" using u
      by (auto simp: incremementReferenceForContextNode_def modifyM_def raised_def referenceCount_def
          split: option.splits)
    then show ?thesis using assms u by (auto simp: settles_def bindM_def)
  qed
  then show ?thesis by (simp add: preserves_def)
qed

lemma advances_provider:
  assumes "\<And>a b c d e. preserves advances (rec a b c d e)"
  shows "preserves advances (resolveContextProviderComponent h rec ct el cx bs n)"
  unfolding resolveContextProviderComponent_def
  by (intro advances_incremement_bindM settles_decremement_bindM settles_bindM settles_if settles_returnM
      advances_rules assms)

lemma foldOrder_advances: "foldOrder advances"
  unfolding foldOrder_def
  by (intro conjI allI impI counterOrder_advances advances_provider)
     (simp_all add: preserves_def incDeadEnds_def modifyM_def advances_def referenceCount_def)

lemmas advances_resolveDeeply = fold_resolveDeeply[OF foldOrder_advances]
lemmas advances_resolveComponent = fold_resolveComponent[OF foldOrder_advances]
lemmas advances_findReactComponentTrees = fold_findReactComponentTrees[OF foldOrder_advances]
lemmas advances_queueNewComponentTree = fold_queueNewComponentTree[OF foldOrder_advances]
lemmas advances_resolveReactComponentTree = fold_resolveReactComponentTree[OF foldOrder_advances]
lemmas advances_resolveNestedOptimizedClosure = fold_resolveNestedOptimizedClosure[OF foldOrder_advances]

subsection \<open>Bail-out messages\<close>

text \<open>
  C9. Annotating the same element with two bail-out reasons, one after the other, leaves one
  stored message (\<open>$BailOutReason\<close>) that holds both reasons, each with its "Bail-out: "
  prefix, the first before the second, separated by ", " (and after a message the element
  already carried, if it had one).
\<close>

theorem assignBailOutMessage_accumulates:
  "bailOutReason (snd (bindM (assignBailOutMessage reactElement m1)
                         (\<lambda>_. assignBailOutMessage reactElement m2) s)) reactElement =
     Some ((case bailOutReason s reactElement of None \<Rightarrow> [] | Some reason \<Rightarrow> reason @ '', '')
           @ ''Bail-out: '' @ m1 @ '', '' @ ''Bail-out: '' @ m2)"
  by (simp add: bindM_def assignBailOutMessage_def modifyM_def split: option.splits)

subsection \<open>Queueing optimized closures\<close>

text \<open>
  C2, as stated, fails: with \<open>optimizeNestedFunctions\<close> enabled, queueing the same function
  twice adds two records.
\<close>

theorem queueOptimizedClosure_twice_counterexample:
  "\<not> length (nestedOptimizedClosures (snd (
        bindM (queueOptimizedClosure (tableHost False True) (ECMAScriptSourceFunctionValue 7) 0 None None)
          (\<lambda>_. queueOptimizedClosure (tableHost False True) (ECMAScriptSourceFunctionValue 7) 0 None None)
          (newReconciler []))))
      \<le> length (nestedOptimizedClosures (newReconciler [] :: table Reconciler)) + 1"
  by (simp add: bindM_def queueOptimizedClosure_def modifyM_def tableHost_def newReconciler_def)

text \<open>
  C2, amended. \<open>_queueOptimizedClosure\<close> appends one record at every call when
  \<open>optimizeNestedFunctions\<close> is enabled, also for a function that was queued before (two
  calls add two records), and changes nothing when it is disabled; it neither reads nor
  writes \<open>alreadyEvaluatedNestedClosures\<close>.
\<close>

theorem queueOptimizedClosure_appends:
  "(let s1 = snd (queueOptimizedClosure h func evaluatedNode ct cx s);
        s2 = snd (queueOptimizedClosure h func evaluatedNode ct cx s1)
    in length (nestedOptimizedClosures s2) =
         length (nestedOptimizedClosures s) + (if optimizeNestedFunctions h then 2 else 0)
       \<and> alreadyEvaluatedNestedClosures s2 = alreadyEvaluatedNestedClosures s
       \<and> (if optimizeNestedFunctions h
          then nestedOptimizedClosures s1 = nestedOptimizedClosures s @
                 [\<lparr>oc_evaluatedNode = evaluatedNode, oc_func = func, oc_nestedEffects = [],
                   oc_componentType = ct, oc_context = cx\<rparr>]
          else s1 = s))"
  by (simp add: queueOptimizedClosure_def modifyM_def returnM_def Let_def)

subsection \<open>Running the model on a concrete state\<close>

lemma bindM_apply: "bindM m f s = (case m s of
      (Returns a, s') \<Rightarrow> f a s'
    | (Throws e, s') \<Rightarrow> (Throws e, s')
    | (Diverges, s') \<Rightarrow> (Diverges, s'))"
  by (simp add: bindM_def)

lemma tryCatch_apply: "tryCatch m handler s = (case m s of
      (Returns a, s') \<Rightarrow> (Returns a, s')
    | (Throws e, s') \<Rightarrow> handler e s'
    | (Diverges, s') \<Rightarrow> (Diverges, s'))"
  by (simp add: tryCatch_def)

lemma resolveDeeply_Suc:
  "resolveDeeply h (Suc n) = resolveDeeply_body h n (resolveDeeply h n) (resolveComponent h n)"
  by (simp add: resolveDeeply_def resolveComponent_def)

lemma resolveComponent_Suc:
  "resolveComponent h (Suc n) = resolveComponent_body h (resolveDeeply h n) (resolveComponent h n)"
  by (simp add: resolveDeeply_def resolveComponent_def)

lemma resolveDeeply_0: "resolveDeeply h 0 a b c d e = divergeM"
  by (simp add: resolveDeeply_def)

lemma resolveComponent_0: "resolveComponent h 0 a b c d e = divergeM"
  by (simp add: resolveComponent_def)

text \<open>
  The equations of the model, oriented so that a call is unfolded only once it is applied to
  a state: the simplifier then runs the program in the order of the program.
\<close>

lemmas run_defs =
  bindM_apply tryCatch_apply
  returnM_def throwM_def divergeM_def getsM_def modifyM_def
  invariant_def[THEN fun_cong]
  hostRead_def hostRun_def hostWrite_def
  hostTest_def[THEN fun_cong] hostOp_def[THEN fun_cong] getProperty_def[THEN fun_cong]
  Get_def[THEN fun_cong] getValueFromFunctionCall_def[THEN fun_cong] getComponentName_def[THEN fun_cong]
  createReactEvaluatedNode_def pushChild_def[THEN fun_cong] setNodeStatus_def[THEN fun_cong]
  setNodeMessage_def[THEN fun_cong]
  incDeadEnds_def[THEN fun_cong] incComponentsEvaluated_def[THEN fun_cong]
  incInlinedComponents_def[THEN fun_cong] incOptimizedTrees_def[THEN fun_cong]
  incOptimizedNestedClosures_def[THEN fun_cong]
  queueOptimizedClosure_def[THEN fun_cong] hasEvaluatedRootNode_def
  queueNewComponentTree_def[THEN fun_cong] assignBailOutMessage_def[THEN fun_cong]
  setContextCurrentValue_def[THEN fun_cong]
  decremementReferenceForContextNode_def[THEN fun_cong]
  incremementReferenceForContextNode_def[THEN fun_cong]
  hasReferenceForContextNode_def[THEN fun_cong]
  reportNewTree_def[THEN fun_cong] findReactComponentTrees_body_def[THEN fun_cong]
  resolveComplexClassComponent_def[THEN fun_cong] resolveSimpleClassComponent_def[THEN fun_cong]
  resolveFunctionalComponent_def[THEN fun_cong] getClassComponentMetadata_def[THEN fun_cong]
  resolveClassComponent_def[THEN fun_cong] resolveClassComponentForFirstRenderOnly_def[THEN fun_cong]
  resolveReactElementHostChildren_def[THEN fun_cong] resolveContextProviderComponent_def[THEN fun_cong]
  resolveContextConsumerComponent_def[THEN fun_cong] resolveForwardRefComponent_def[THEN fun_cong]
  resolveRelayQueryRendererComponent_def[THEN fun_cong] resolveRelayContainer_def[THEN fun_cong]
  resolveComponent_body_def[THEN fun_cong] getComponentResolutionStrategy_def[THEN fun_cong]
  resolveReactDomPortal_def[THEN fun_cong] evaluateForEffects_def
  evaluateWithAbstractConditional_def[THEN fun_cong] resolveAbstractConditionalValue_def[THEN fun_cong]
  resolveAbstractValue_def[THEN fun_cong] mapArrayValue_def[THEN fun_cong] resolveArray_def[THEN fun_cong]
  resolveUnknownComponentType_def[THEN fun_cong] resolveReactElementBadRef_def[THEN fun_cong]
  resolveReactElementUndefinedRender_def[THEN fun_cong] resolveFragmentComponent_def[THEN fun_cong]
  completionMessage_def[THEN fun_cong] resolveComponentResolutionFailure_def[THEN fun_cong]
  resolveReactElement_def[THEN fun_cong] resolveDeeply_body_def[THEN fun_cong]
  handleComponentTreeRootFailure_def[THEN fun_cong] handleNestedOptimizedClosuresFromEffects_def[THEN fun_cong]
  resolveReactComponentTree_def[THEN fun_cong]
  resolveDeeply_Suc resolveComponent_Suc resolveDeeply_0 resolveComponent_0
  eval_nat_numeral

lemmas table_defs = tableHost_def tableTest_def tablePerform_def tableSymbol_def lookup_def
  newReconciler_def createComponentTreeState_def startWith_def referenceCount_def quoted_def

subsection \<open>Dead ends\<close>

text \<open>
  C8. Within a fold the \<open>deadEnds\<close> counter never decreases: whatever an operation of the
  reconciler does (return, throw, not return), the counter it leaves is at least the counter
  it found. This holds for the two entry points, the deep resolver, the resolution of a
  component, the search for component trees and the queues. (\<open>clearComponentTreeState\<close>
  ends the fold.)
\<close>

theorem deadEnds_never_decreases:
  "deadEnds (componentTreeState s)
     \<le> deadEnds (componentTreeState (snd (resolveReactComponentTree h fuel ct po cxo root s)))
   \<and> deadEnds (componentTreeState s)
       \<le> deadEnds (componentTreeState (snd (resolveNestedOptimizedClosure h fuel func effects cto cxo node s)))
   \<and> deadEnds (componentTreeState s)
       \<le> deadEnds (componentTreeState (snd (resolveDeeply h fuel ct val cx bs node s)))
   \<and> deadEnds (componentTreeState s)
       \<le> deadEnds (componentTreeState (snd (resolveComponent h fuel ct val cx bs node s)))
   \<and> deadEnds (componentTreeState s)
       \<le> deadEnds (componentTreeState (snd (findReactComponentTrees h fuel val node treat cto cxo s)))
   \<and> deadEnds (componentTreeState s)
       \<le> deadEnds (componentTreeState (snd (queueNewComponentTree h val node po cxo s)))
   \<and> deadEnds (componentTreeState s)
       \<le> deadEnds (componentTreeState (snd (queueOptimizedClosure h func node cto cxo s)))
   \<and> deadEnds (componentTreeState s)
       \<le> deadEnds (componentTreeState (snd (hasEvaluatedRootNode ct node s)))"
proof -
  have d: "deadEnds (componentTreeState s) \<le> deadEnds (componentTreeState (snd (m s)))"
    if "preserves advances m" for m :: "('a Reconciler, 'b) M"
    using that by (simp add: preserves_def advances_def)
  show ?thesis
    by (intro conjI d advances_resolveReactComponentTree advances_resolveNestedOptimizedClosure
        advances_resolveDeeply advances_resolveComponent advances_findReactComponentTrees
        advances_queueNewComponentTree advances_rules)
qed

theorem deadEnds_never_decreases_witness:
  "deadEnds (componentTreeState (startWith providerTable)) = 0
   \<and> deadEnds (componentTreeState (snd (resolveDeeply (tableHost False True) 3
        (ECMAScriptSourceFunctionValue 0) (ObjectValue 1) (ObjectValue 7) NO_BRANCH 0
        (startWith providerTable)))) = 1
   \<and> (0::int) \<le> 1"
proof -
  have run: "deadEnds (componentTreeState (snd (resolveDeeply (tableHost False True) 3
        (ECMAScriptSourceFunctionValue 0) (ObjectValue 1) (ObjectValue 7) NO_BRANCH 0
        (startWith providerTable)))) = 1"
    by (simp add: run_defs table_defs providerTable_def)
  have start: "deadEnds (componentTreeState (startWith providerTable)) = 0"
    by (simp add: run_defs table_defs)
  show ?thesis
    using deadEnds_never_decreases[where s = "startWith providerTable" and h = "tableHost False True"
        and fuel = 3 and ct = "ECMAScriptSourceFunctionValue 0" and val = "ObjectValue 1"
        and cx = "ObjectValue 7" and bs = NO_BRANCH and node = 0]
      run start by simp
qed

subsection \<open>Context reference counts\<close>

lemma counterOrder_sameReferences: "counterOrder sameReferences"
  unfolding counterOrder_def sameReferences_def sameCounters_def referenceCount_def by simp

lemmas sameReferences_rules =
  preserves_intros[OF counterOrder_isPreorder[OF counterOrder_sameReferences]]
  counter_intros[OF counterOrder_sameReferences]
  preserves_setContextCurrentValue[OF counterOrder_sameReferences]
  preserves_cases

lemma carries_preserves:
  assumes "preserves sameReferences m"
  shows "carries g m g"
proof -
  have "referenceCount s' c = g c"
    if "\<forall>c. referenceCount s c = g c" and "m s = (Returns v, s')" for s v s' c
  proof -
    have "sameReferences s s'" using assms that(2) by (rule preservesD)
    then show ?thesis using that(1) by (simp add: sameReferences_def)
  qed
  then show ?thesis unfolding carries_def by blast
qed

lemma carries_returnM: "carries g (returnM a) g"
  by (simp add: carries_def returnM_def)

lemma carries_if:
  "(b \<Longrightarrow> carries g x g') \<Longrightarrow> (\<not> b \<Longrightarrow> carries g y g') \<Longrightarrow> carries g (if b then x else y) g'"
  by simp

lemma carries_bindM:
  assumes "preserves sameReferences m" and "\<And>a. carries g (f a) g'"
  shows "carries g (bindM m f) g'"
proof -
  have "referenceCount s' c = g' c"
    if g: "\<forall>c. referenceCount s c = g c" and r: "bindM m f s = (Returns v, s')" for s v s' c
  proof (cases "m s")
    case (Pair k t)
    show ?thesis
    proof (cases k)
      case (Returns a)
      have "sameReferences s t" using assms(1) Pair by (rule preservesD)
      then have gt: "\<forall>c. referenceCount t c = g c" using g by (simp add: sameReferences_def)
      have "f a t = (Returns v, s')" using r Pair Returns by (simp add: bindM_def)
      then show ?thesis using assms(2)[of a] gt unfolding carries_def by blast
    qed (use r Pair in \<open>auto simp: bindM_def\<close>)
  qed
  then show ?thesis unfolding carries_def by blast
qed

lemma referenceCount_incremement:
  "referenceCount (snd (incremementReferenceForContextNode x s)) c =
     (if c = x then referenceCount s x + 1 else referenceCount s c)"
  by (simp add: incremementReferenceForContextNode_def modifyM_def referenceCount_def
      split: option.splits)

lemma referenceCount_decremement:
  "referenceCount (snd (decremementReferenceForContextNode x s)) c =
     (if c = x then (if referenceCount s x = 0 then 0 else referenceCount s x - 1)
      else referenceCount s c)"
  by (simp add: decremementReferenceForContextNode_def modifyM_def referenceCount_def
      split: option.splits)

lemma carries_incremement_bindM:
  assumes "carries (bumped g x) t g'"
  shows "carries g (bindM (incremementReferenceForContextNode x) (\<lambda>_. t)) g'"
proof -
  have "referenceCount s' c = g' c"
    if g: "\<forall>c. referenceCount s c = g c"
      and r: "bindM (incremementReferenceForContextNode x) (\<lambda>_. t) s = (Returns v, s')"
    for s v s' c
  proof -
    obtain u where u: "incremementReferenceForContextNode x s = (Returns (), u)"
      by (simp add: incremementReferenceForContextNode_def modifyM_def)
    have "referenceCount u c' = bumped g x c'" for c'
      using referenceCount_incremement[of x s c'] u g by (simp add: bumped_def)
    then have "\<forall>c. referenceCount u c = bumped g x c" by blast
    moreover have "t u = (Returns v, s')" using r u by (simp add: bindM_def)
    ultimately show ?thesis using assms unfolding carries_def by blast
  qed
  then show ?thesis unfolding carries_def by blast
qed

lemma carries_decremement_bindM:
  assumes "0 \<le> g x" and "\<And>a. carries g (f a) g"
  shows "carries (bumped g x) (bindM (decremementReferenceForContextNode x) f) g"
proof -
  have "referenceCount s' c = g c"
    if g: "\<forall>c. referenceCount s c = bumped g x c"
      and r: "bindM (decremementReferenceForContextNode x) f s = (Returns v, s')"
    for s v s' c
  proof -
    obtain u where u: "decremementReferenceForContextNode x s = (Returns (), u)"
      by (simp add: decremementReferenceForContextNode_def modifyM_def)
    have "referenceCount u c' = g c'" for c'
      using referenceCount_decremement[of x s c'] u g assms(1) by (simp add: bumped_def)
    then have "\<forall>c. referenceCount u c = g c" by blast
    moreover have "f () u = (Returns v, s')" using r u by (simp add: bindM_def)
    ultimately show ?thesis using assms(2)[of "()"] unfolding carries_def by blast
  qed
  then show ?thesis unfolding carries_def by blast
qed

lemma sameReferences_hostChildren:
  assumes "\<And>a b c d e. preserves sameReferences (rec a b c d e)"
  shows "preserves sameReferences (resolveReactElementHostChildren h rec ct el cx bs n)"
  using counterOrder_sameReferences assms by (rule preserves_hostChildren)

lemma carries_provider:
  assumes "\<And>a b c d e. preserves sameReferences (rec a b c d e)" and "\<forall>c. 0 \<le> g c"
  shows "carries g (resolveContextProviderComponent h rec ct el cx bs n) g"
  unfolding resolveContextProviderComponent_def
  by (intro carries_incremement_bindM carries_decremement_bindM carries_bindM carries_if
      carries_returnM sameReferences_rules sameReferences_hostChildren assms(1))
     (simp_all add: assms(2))

subsection \<open>The do-not-optimize signal\<close>

text \<open>
  C3, as stated, fails at the tree root: the component \<open>ECMAScriptSourceFunctionValue 0\<close>
  carries the flag, \<open>_resolveComponent\<close> raises \<open>DoNotOptimize\<close>, and
  \<open>_handleComponentTreeRootFailure\<close> turns it into a \<open>ReconcilerFatalError\<close>.
\<close>

theorem doNotOptimize_root_counterexample:
  "fst (resolveReactComponentTree (tableHost False True) 2 (ECMAScriptSourceFunctionValue 0)
          (Some (ObjectValue 6)) (Some (ObjectValue 7)) 0 (startWith doNotOptimizeTable))
     = Throws (ReconcilerFatalError
         (''Failed to render React component root '' @ quoted ''Root''
          @ '' due to __reactCompilerDoNotOptimize flag detected'') 0)"
  by (simp add: run_defs table_defs doNotOptimizeTable_def)

text \<open>
  C3, amended. A \<open>DoNotOptimize\<close> signal raised while resolving an element below the root
  is recoverable: \<open>_resolveComponentResolutionFailure\<close> returns the element as it is and
  changes nothing, so a component whose type carries the flag leaves the \<open>try\<close> of
  \<open>_resolveReactElement\<close> with the element, in the state the \<open>try\<close> started in. At the
  tree root the signal is not recoverable: \<open>_handleComponentTreeRootFailure\<close> throws a
  \<open>ReconcilerFatalError\<close> for the root node, and so does \<open>resolveReactComponentTree\<close> for a
  root component that carries the flag.
\<close>

theorem doNotOptimize_recoverable_below_root:
  "resolveComponentResolutionFailure h n (DoNotOptimize m) reactElement evaluatedNode branchStatus s
     = (Returns reactElement, s)
   \<and> (test h DoNotOptimizeComponent (realm s) typeValue \<longrightarrow>
        tryCatch (bindM (resolveComponent_body h recD recC typeValue props cx bs child) f)
          (\<lambda>error. resolveComponentResolutionFailure h n error reactElement evaluatedNode branchStatus) s
        = (Returns reactElement, s))
   \<and> fst (handleComponentTreeRootFailure h (DoNotOptimize m) root s)
       = Throws (ReconcilerFatalError
           (''Failed to render React component root '' @ quoted (node_name (nodes s root))
            @ '' due to '' @ m) root)
   \<and> (test h DoNotOptimizeComponent (realm s) typeValue \<longrightarrow>
        fst (resolveReactComponentTree h (Suc fuel) typeValue (Some props) (Some cx) root s)
        = Throws (ReconcilerFatalError
            (''Failed to render React component root '' @ quoted (node_name (nodes s root))
             @ '' due to __reactCompilerDoNotOptimize flag detected'') root))"
  by (simp add: resolveComponentResolutionFailure_def handleComponentTreeRootFailure_def
      resolveReactComponentTree_def resolveComponent_Suc resolveComponent_body_def
      evaluateForEffects_def bindM_apply tryCatch_apply returnM_def throwM_def getsM_def modifyM_def
      hostTest_def hostRead_def)

theorem doNotOptimize_recoverable_below_root_witness:
  "test (tableHost False True) DoNotOptimizeComponent (realm (startWith doNotOptimizeTable))
     (ECMAScriptSourceFunctionValue 0)
   \<and> resolveDeeply (tableHost False True) 2 (ECMAScriptSourceFunctionValue 9) (ObjectValue 1)
        (ObjectValue 7) NO_BRANCH 0 (startWith doNotOptimizeTable)
      = (Returns (ObjectValue 1),
         snd (createReactEvaluatedNode INLINED ''Component'' (startWith doNotOptimizeTable)))
   \<and> tryCatch (bindM (resolveComponent_body (tableHost False True)
          (resolveDeeply (tableHost False True) 0) (resolveComponent (tableHost False True) 0)
          (ECMAScriptSourceFunctionValue 0) (ObjectValue 3) (ObjectValue 7) NO_BRANCH 1)
          (\<lambda>render. returnM (fst render)))
        (\<lambda>error. resolveComponentResolutionFailure (tableHost False True) 1 error (ObjectValue 1) 0
           NO_BRANCH) (startWith doNotOptimizeTable)
      = (Returns (ObjectValue 1), startWith doNotOptimizeTable)"
proof -
  have flag: "test (tableHost False True) DoNotOptimizeComponent (realm (startWith doNotOptimizeTable))
     (ECMAScriptSourceFunctionValue 0)"
    by (simp add: run_defs table_defs doNotOptimizeTable_def)
  have deep: "resolveDeeply (tableHost False True) 2 (ECMAScriptSourceFunctionValue 9) (ObjectValue 1)
        (ObjectValue 7) NO_BRANCH 0 (startWith doNotOptimizeTable)
      = (Returns (ObjectValue 1),
         snd (createReactEvaluatedNode INLINED ''Component'' (startWith doNotOptimizeTable)))"
    by (simp add: run_defs table_defs doNotOptimizeTable_def)
  show ?thesis
    using doNotOptimize_recoverable_below_root[where h = "tableHost False True"
        and s = "startWith doNotOptimizeTable" and typeValue = "ECMAScriptSourceFunctionValue 0"
        and recD = "resolveDeeply (tableHost False True) 0"
        and recC = "resolveComponent (tableHost False True) 0"
        and props = "ObjectValue 3" and cx = "ObjectValue 7" and bs = NO_BRANCH and child = 1
        and f = "\<lambda>render. returnM (fst render)" and n = 1 and reactElement = "ObjectValue 1"
        and evaluatedNode = 0 and branchStatus = NO_BRANCH and m = "[]" and root = 0 and fuel = 0]
      flag deep by simp
qed

subsection \<open>Queueing new component trees\<close>

text \<open>
  C6, as stated, fails: a root value that is neither a symbol, nor a source function, nor an
  abstract value (here the object \<open>ObjectValue 2\<close>, as the type of a provider element with a
  bad ref would be) fails the \<open>invariant\<close> before \<open>deadEnds\<close> is incremented.
\<close>

theorem queueNewComponentTree_invariant_counterexample:
  "\<not> isSymbolValue (ObjectValue 2)
   \<and> fst (queueNewComponentTree (tableHost False True) (ObjectValue 2) 0 None None (startWith []))
       = Throws (InvariantViolation [])
   \<and> deadEnds (componentTreeState (snd (queueNewComponentTree (tableHost False True) (ObjectValue 2) 0
         None None (startWith []))))
       \<noteq> deadEnds (componentTreeState (startWith [])) + 1"
  by (simp add: run_defs table_defs)

text \<open>
  C6, amended. \<open>_queueNewComponentTree\<close>: a \<open>SymbolValue\<close> root value is silently ignored
  (nothing changes); a root value that is neither a source function nor an abstract value
  fails an invariant, and nothing changes; otherwise \<open>deadEnds\<close> is incremented, and a
  \<open>Branch\<close> record is appended exactly when \<open>getComponentTypeFromRootValue\<close> returns a
  component type that is not in the root memoization table.
\<close>

theorem queueNewComponentTree_cases:
  "(let (outcome, s') = queueNewComponentTree h rootValue evaluatedNode props cx s in
    if isSymbolValue rootValue then outcome = Returns () \<and> s' = s
    else if isECMAScriptSourceFunctionValue rootValue \<or> isAbstractValue rootValue then
      deadEnds (componentTreeState s') = deadEnds (componentTreeState s) + 1
      \<and> branchedComponentTrees s' = branchedComponentTrees s @
           (case fst (h_getComponentTypeFromRootValue h (realm s) rootValue) of
              Returns (Some componentType') \<Rightarrow>
                (case alreadyEvaluatedRootNodes s componentType' of
                   None \<Rightarrow> [\<lparr>br_context = cx, br_evaluatedNode = evaluatedNode, br_props = props,
                             br_rootValue = rootValue\<rparr>]
                 | Some alreadyEvaluatedNode \<Rightarrow> [])
            | _ \<Rightarrow> [])
    else outcome = Throws (InvariantViolation []) \<and> s' = s)"
  by (auto simp: queueNewComponentTree_def invariant_def incDeadEnds_def hasEvaluatedRootNode_def
      hostRun_def bindM_apply returnM_def throwM_def modifyM_def
      split: prod.splits completion.splits option.splits)

subsection \<open>The root memoization table\<close>


subsection \<open>Eliding a context provider\<close>

text \<open>
  C5, as stated, fails. In first-render-only mode a provider element whose props are an
  abstract object is resolved with no dead end counted (\<open>deadEnds\<close> is 0 afterwards) and is
  nevertheless returned as it is: its report node keeps the status \<open>NORMAL\<close> and the counter
  of inlined components stays 0. The elision is only tried for props that are a concrete
  \<open>ObjectValue\<close>.
\<close>

theorem provider_abstract_props_counterexample:
  "firstRenderOnly (tableHost True True)
   \<and> fst (resolveContextProviderComponent (tableHost True True) (resolveDeeply (tableHost True True) 1)
          (ECMAScriptSourceFunctionValue 0) (ObjectValue 1) (ObjectValue 7) NO_BRANCH 0
          (startWith abstractPropsTable)) = Returns (ObjectValue 1)
   \<and> deadEnds (componentTreeState (snd (resolveContextProviderComponent (tableHost True True)
          (resolveDeeply (tableHost True True) 1)
          (ECMAScriptSourceFunctionValue 0) (ObjectValue 1) (ObjectValue 7) NO_BRANCH 0
          (startWith abstractPropsTable)))) = 0
   \<and> node_status (nodes (snd (resolveContextProviderComponent (tableHost True True)
          (resolveDeeply (tableHost True True) 1)
          (ECMAScriptSourceFunctionValue 0) (ObjectValue 1) (ObjectValue 7) NO_BRANCH 0
          (startWith abstractPropsTable))) 1) = NORMAL
   \<and> inlinedComponents (statistics (snd (resolveContextProviderComponent (tableHost True True)
          (resolveDeeply (tableHost True True) 1)
          (ECMAScriptSourceFunctionValue 0) (ObjectValue 1) (ObjectValue 7) NO_BRANCH 0
          (startWith abstractPropsTable)))) = 0"
  by (simp add: run_defs table_defs abstractPropsTable_def)

lemma setContextCurrentValue_realm_only:
  "snd (setContextCurrentValue h c v t) = t\<lparr>realm := realm (snd (setContextCurrentValue h c v t))\<rparr>"
  by (auto simp: setContextCurrentValue_def bindM_apply returnM_def throwM_def invariant_def
      hostTest_def hostRead_def hostWrite_def split: list.splits completion.splits prod.splits)

lemma setContextCurrentValue_frame:
  assumes "setContextCurrentValue h c v t = (r, t')"
  shows "fst (setContextCurrentValue h c v t) = r \<and> realm (snd (setContextCurrentValue h c v t)) = realm t'
         \<and> nodes t' = nodes t \<and> statistics t' = statistics t
         \<and> componentTreeState t' = componentTreeState t"
proof -
  have "t' = t\<lparr>realm := realm t'\<rparr>"
    using setContextCurrentValue_realm_only[of h c v t] assms by simp
  then have "nodes t' = nodes t \<and> statistics t' = statistics t
             \<and> componentTreeState t' = componentTreeState t"
    by (metis (no_types) Reconciler.select_convs Reconciler.surjective Reconciler.update_convs(1))
  then show ?thesis using assms by simp
qed

lemma bindM_ReturnsE:
  assumes "bindM m f s = (Returns v, s')"
  obtains x t where "m s = (Returns x, t)" and "f x t = (Returns v, s')"
  using assms by (auto simp: bindM_apply split: prod.splits completion.splits)

text \<open>
  C5, amended. Whenever \<open>_resolveContextProviderComponent\<close> returns, it has resolved the
  children of the provider element (by \<open>_resolveReactElementHostChildren\<close>, under the report
  node it made for the provider) and has written the previous current value of the context
  back; the dead ends it leaves are the dead ends counted when the children were resolved. If
  the mode is first-render-only, the props of the element are a concrete object and that count
  is 0, the provider is elided: the value returned is the \<open>children\<close> of the resolved props,
  the report node is \<open>INLINED\<close> and one more inlined component is counted. In every other
  case the value returned is the resolved provider element, and the report nodes and the
  statistics are those left by the resolution of the children.
\<close>

theorem provider_elision:
  assumes "resolveContextProviderComponent h rec ct el cx bs node s = (Returns v, s')"
  shows "\<exists>s1 resolved t.
           resolveReactElementHostChildren h rec ct el cx bs (nextNode s) s1 = (Returns resolved, t)
         \<and> deadEnds (componentTreeState s') = deadEnds (componentTreeState t)
         \<and> fst (setContextCurrentValue h
                  (h_getProperty h (realm s) (h_getProperty h (realm s) el ''type'') ''context'')
                  (h_getProperty h (realm s)
                     (h_getProperty h (realm s) (h_getProperty h (realm s) el ''type'') ''context'')
                     ''currentValue'') t) = Returns ()
         \<and> (if firstRenderOnly h \<and> isObjectValue (h_getProperty h (realm s) el ''props'')
                \<and> deadEnds (componentTreeState t) = 0
             then node_status (nodes s' (nextNode s)) = INLINED
                \<and> inlinedComponents (statistics s') = inlinedComponents (statistics t) + 1
                \<and> perform h (HostGet ''children'')
                     (realm (snd (setContextCurrentValue h
                        (h_getProperty h (realm s) (h_getProperty h (realm s) el ''type'') ''context'')
                        (h_getProperty h (realm s)
                           (h_getProperty h (realm s) (h_getProperty h (realm s) el ''type'') ''context'')
                           ''currentValue'') t)))
                     [h_getProperty h (realm t) resolved ''props'']
                   = (Returns v, realm s')
             else v = resolved
                \<and> nodes s' = nodes t
                \<and> statistics s' = statistics t
                \<and> realm s' = realm (snd (setContextCurrentValue h
                        (h_getProperty h (realm s) (h_getProperty h (realm s) el ''type'') ''context'')
                        (h_getProperty h (realm s)
                           (h_getProperty h (realm s) (h_getProperty h (realm s) el ''type'') ''context'')
                           ''currentValue'') t)))"
proof -
  define outcome where "outcome = (\<lambda>s1 resolved t.
           resolveReactElementHostChildren h rec ct el cx bs (nextNode s) s1 = (Returns resolved, t)
         \<and> deadEnds (componentTreeState s') = deadEnds (componentTreeState t)
         \<and> fst (setContextCurrentValue h
                  (h_getProperty h (realm s) (h_getProperty h (realm s) el ''type'') ''context'')
                  (h_getProperty h (realm s)
                     (h_getProperty h (realm s) (h_getProperty h (realm s) el ''type'') ''context'')
                     ''currentValue'') t) = Returns ()
         \<and> (if firstRenderOnly h \<and> isObjectValue (h_getProperty h (realm s) el ''props'')
                \<and> deadEnds (componentTreeState t) = 0
             then node_status (nodes s' (nextNode s)) = INLINED
                \<and> inlinedComponents (statistics s') = inlinedComponents (statistics t) + 1
                \<and> perform h (HostGet ''children'')
                     (realm (snd (setContextCurrentValue h
                        (h_getProperty h (realm s) (h_getProperty h (realm s) el ''type'') ''context'')
                        (h_getProperty h (realm s)
                           (h_getProperty h (realm s) (h_getProperty h (realm s) el ''type'') ''context'')
                           ''currentValue'') t)))
                     [h_getProperty h (realm t) resolved ''props'']
                   = (Returns v, realm s')
             else v = resolved
                \<and> nodes s' = nodes t
                \<and> statistics s' = statistics t
                \<and> realm s' = realm (snd (setContextCurrentValue h
                        (h_getProperty h (realm s) (h_getProperty h (realm s) el ''type'') ''context'')
                        (h_getProperty h (realm s)
                           (h_getProperty h (realm s) (h_getProperty h (realm s) el ''type'') ''context'')
                           ''currentValue'') t))))"
  have "\<exists>s1 resolved t. outcome s1 resolved t"
    using assms
    unfolding resolveContextProviderComponent_def
    apply (elim bindM_ReturnsE)
    apply (simp (no_asm_use) add: getProperty_def hostRead_def createReactEvaluatedNode_def
        pushChild_def incComponentsEvaluated_def modifyM_def invariant_def returnM_def throwM_def
        incremementReferenceForContextNode_def split: if_split_asm;
        (elim bindM_ReturnsE)?;
        (simp (no_asm_use) add: getProperty_def hostRead_def getsM_def returnM_def throwM_def
           invariant_def decremementReferenceForContextNode_def modifyM_def split: if_split_asm)?;
        (elim bindM_ReturnsE)?;
        (simp (no_asm_use) add: returnM_def Get_def hostOp_def hostRun_def setNodeStatus_def
           incInlinedComponents_def modifyM_def split: prod.split_asm)?;
        (hypsubst)?)
    apply (unfold outcome_def)
    apply ((rule exI, rule exI, rule exI, rule conjI, assumption,
           (auto dest!: setContextCurrentValue_frame)[1])+)
    done
  then show ?thesis unfolding outcome_def .
qed

theorem provider_elision_witness:
  "fst (resolveContextProviderComponent (tableHost True True) (resolveDeeply (tableHost True True) 1)
          (ECMAScriptSourceFunctionValue 0) (ObjectValue 1) (ObjectValue 7) NO_BRANCH 0
          (startWith providerTextTable)) = Returns (StringValue ''text'')
   \<and> firstRenderOnly (tableHost True True)
   \<and> isObjectValue (h_getProperty (tableHost True True) (realm (startWith providerTextTable))
          (ObjectValue 1) ''props'')
   \<and> deadEnds (componentTreeState (snd (resolveContextProviderComponent (tableHost True True)
          (resolveDeeply (tableHost True True) 1)
          (ECMAScriptSourceFunctionValue 0) (ObjectValue 1) (ObjectValue 7) NO_BRANCH 0
          (startWith providerTextTable)))) = 0
   \<and> node_status (nodes (snd (resolveContextProviderComponent (tableHost True True)
          (resolveDeeply (tableHost True True) 1)
          (ECMAScriptSourceFunctionValue 0) (ObjectValue 1) (ObjectValue 7) NO_BRANCH 0
          (startWith providerTextTable))) (nextNode (startWith providerTextTable))) = INLINED"
proof -
  define run where "run = resolveContextProviderComponent (tableHost True True)
          (resolveDeeply (tableHost True True) 1)
          (ECMAScriptSourceFunctionValue 0) (ObjectValue 1) (ObjectValue 7) NO_BRANCH 0
          (startWith providerTextTable)"
  have returns: "fst run = Returns (StringValue ''text'')"
    unfolding run_def by (simp add: run_defs table_defs providerTextTable_def)
  have dead: "deadEnds (componentTreeState (snd run)) = 0"
    unfolding run_def by (simp add: run_defs table_defs providerTextTable_def)
  have mode: "firstRenderOnly (tableHost True True)"
    by (simp add: table_defs)
  have concrete: "isObjectValue (h_getProperty (tableHost True True)
          (realm (startWith providerTextTable)) (ObjectValue 1) ''props'')"
    by (simp add: run_defs table_defs providerTextTable_def)
  have "resolveContextProviderComponent (tableHost True True)
          (resolveDeeply (tableHost True True) 1)
          (ECMAScriptSourceFunctionValue 0) (ObjectValue 1) (ObjectValue 7) NO_BRANCH 0
          (startWith providerTextTable) = (Returns (StringValue ''text''), snd run)"
    using returns unfolding run_def by (simp add: prod_eq_iff)
  from provider_elision[OF this] dead mode concrete
  have "node_status (nodes (snd run) (nextNode (startWith providerTextTable))) = INLINED"
    by (elim exE conjE) (simp split: if_splits)
  then show ?thesis
    using returns dead mode concrete unfolding run_def by simp
qed

subsection \<open>Complex class components\<close>

text \<open>
  C4, as stated, fails. A complex class component that renders an element of its own type is
  folded as a root. The inner element is resolved at a non-root position and is not absorbed
  (the status of the tree is \<open>COMPLEX\<close> by then), so \<open>NewComponentTreeBranch\<close> is thrown for
  its report node (node 1, marked \<open>NEW_TREE\<close>, one dead end counted). But it is not queued as
  a new root: the component is in the root memoization table, \<open>_queueNewComponentTree\<close> copies
  the memoized node onto the report node, and \<open>branchedComponentTrees\<close> stays empty. The
  same is seen on a direct call for a memoized component in a branch.
\<close>

theorem resolveComplexClassComponent_memoized_counterexample:
  "fst (resolveReactComponentTree (tableHost False True) 6 (ECMAScriptSourceFunctionValue 0)
          (Some (ObjectValue 6)) (Some (ObjectValue 7)) 0 (startWith recursiveClassTable))
     = Returns (Effects (ObjectValue 1) recursiveClassTable)
   \<and> branchedComponentTrees (startWith recursiveClassTable) = []
   \<and> branchedComponentTrees (snd (resolveReactComponentTree (tableHost False True) 6
          (ECMAScriptSourceFunctionValue 0) (Some (ObjectValue 6)) (Some (ObjectValue 7)) 0
          (startWith recursiveClassTable))) = []
   \<and> deadEnds (componentTreeState (snd (resolveReactComponentTree (tableHost False True) 6
          (ECMAScriptSourceFunctionValue 0) (Some (ObjectValue 6)) (Some (ObjectValue 7)) 0
          (startWith recursiveClassTable)))) = 1
   \<and> node_status (nodes (snd (resolveReactComponentTree (tableHost False True) 6
          (ECMAScriptSourceFunctionValue 0) (Some (ObjectValue 6)) (Some (ObjectValue 7)) 0
          (startWith recursiveClassTable))) 1) = NEW_TREE
   \<and> fst (resolveComplexClassComponent (tableHost False True) (ECMAScriptSourceFunctionValue 0)
          (ObjectValue 6) (ObjectValue 7) \<lparr>instanceProperties = {''state''}, instanceSymbols = {}\<rparr>
          BRANCH 0
          ((startWith classTable)\<lparr>alreadyEvaluatedRootNodes :=
             [ECMAScriptSourceFunctionValue 0 \<mapsto> 0]\<rparr>))
     = Throws (NewComponentTreeBranch 0)
   \<and> branchedComponentTrees (snd (resolveComplexClassComponent (tableHost False True)
          (ECMAScriptSourceFunctionValue 0)
          (ObjectValue 6) (ObjectValue 7) \<lparr>instanceProperties = {''state''}, instanceSymbols = {}\<rparr>
          BRANCH 0
          ((startWith classTable)\<lparr>alreadyEvaluatedRootNodes :=
             [ECMAScriptSourceFunctionValue 0 \<mapsto> 0]\<rparr>))) = []"
  by (simp add: run_defs table_defs recursiveClassTable_def classTable_def)

text \<open>
  C4, amended. A complex class component resolved at a non-root position is absorbed as the
  root of the tree (\<open>componentTreeState.componentType\<close> becomes this component, nothing is
  queued, no dead end is counted) exactly when the branch status is \<open>NO_BRANCH\<close>, the status
  of the tree is still \<open>SIMPLE\<close>, and the root memoization table has a node for this
  component whose status is not \<open>RENDER_PROPS\<close>. In every other non-root case it is handed
  to \<open>_queueNewComponentTree\<close>: one dead end is counted and the host is asked for the
  component type of the root value. When the host gives a type that has no entry in the root
  memoization table, one record for this component and this report node (no props, no
  context) is appended to \<open>branchedComponentTrees\<close>; when the type has an entry, nothing is
  appended and the children and the name of the memoized node are copied onto the report
  node; when the host gives no type, nothing is appended. In all three the report node gets
  the status \<open>NEW_TREE\<close>, \<open>NewComponentTreeBranch\<close> is thrown for it, and nothing else
  changes (the status and the component type of the tree stay). When the host fails, its
  failure is the outcome. Where resolution proceeds (at the root, or absorbed) the status of
  the tree is \<open>COMPLEX\<close> afterwards.
\<close>

theorem resolveComplexClassComponent_absorption:
  assumes "isECMAScriptSourceFunctionValue ct"
  shows "(let (outcome, s') = resolveComplexClassComponent h ct props cx md branchStatus evaluatedNode s;
              absorbed = (branchStatus = NO_BRANCH \<and> status (componentTreeState s) = SIMPLE
                          \<and> (case alreadyEvaluatedRootNodes s ct of
                                None \<Rightarrow> False
                              | Some n \<Rightarrow> node_status (nodes s n) \<noteq> RENDER_PROPS));
              counted = s\<lparr>componentTreeState := (componentTreeState s)
                           \<lparr>deadEnds := deadEnds (componentTreeState s) + 1\<rparr>\<rparr>
          in if branchStatus = ROOT then
               status (componentTreeState s') = COMPLEX
               \<and> componentType (componentTreeState s') = componentType (componentTreeState s)
               \<and> deadEnds (componentTreeState s') = deadEnds (componentTreeState s)
               \<and> branchedComponentTrees s' = branchedComponentTrees s
             else if absorbed then
               status (componentTreeState s') = COMPLEX
               \<and> componentType (componentTreeState s') = Some ct
               \<and> deadEnds (componentTreeState s') = deadEnds (componentTreeState s)
               \<and> branchedComponentTrees s' = branchedComponentTrees s
             else
               (case h_getComponentTypeFromRootValue h (realm s) ct of
                  (Returns None, r) \<Rightarrow>
                    outcome = Throws (NewComponentTreeBranch evaluatedNode)
                    \<and> s' = counted\<lparr>realm := r,
                         nodes := (nodes s)(evaluatedNode :=
                           (nodes s evaluatedNode)\<lparr>node_status := NEW_TREE\<rparr>)\<rparr>
                | (Returns (Some found), r) \<Rightarrow>
                    outcome = Throws (NewComponentTreeBranch evaluatedNode)
                    \<and> (case alreadyEvaluatedRootNodes s found of
                          None \<Rightarrow>
                            s' = counted\<lparr>realm := r,
                              branchedComponentTrees := branchedComponentTrees s @
                                [\<lparr>br_context = None, br_evaluatedNode = evaluatedNode,
                                  br_props = None, br_rootValue = ct\<rparr>],
                              nodes := (nodes s)(evaluatedNode :=
                                (nodes s evaluatedNode)\<lparr>node_status := NEW_TREE\<rparr>)\<rparr>
                        | Some memoized \<Rightarrow>
                            s' = counted\<lparr>realm := r,
                              nodes := (nodes s)(evaluatedNode :=
                                (nodes s evaluatedNode)
                                  \<lparr>node_children := node_children (nodes s memoized),
                                   node_name := node_name (nodes s memoized),
                                   node_status := NEW_TREE\<rparr>)\<rparr>)
                | (Throws e, r) \<Rightarrow> outcome = Throws e \<and> s' = counted\<lparr>realm := r\<rparr>
                | (Diverges, r) \<Rightarrow> outcome = Diverges \<and> s' = counted\<lparr>realm := r\<rparr>))"
proof (cases "branchStatus = ROOT")
  case True
  then show ?thesis
    by (auto simp: resolveComplexClassComponent_def bindM_apply returnM_def throwM_def modifyM_def
        getsM_def invariant_def hostRun_def Get_def hostOp_def getValueFromFunctionCall_def
        split: prod.splits completion.splits)
next
  case notRoot: False
  show ?thesis
  proof (cases "branchStatus = NO_BRANCH \<and> status (componentTreeState s) = SIMPLE
                        \<and> (case alreadyEvaluatedRootNodes s ct of
                              None \<Rightarrow> False
                            | Some n \<Rightarrow> node_status (nodes s n) \<noteq> RENDER_PROPS)")
    case True
    then show ?thesis using notRoot
      by (auto simp: resolveComplexClassComponent_def bindM_apply returnM_def throwM_def modifyM_def
          getsM_def invariant_def hostRun_def Get_def hostOp_def getValueFromFunctionCall_def
          split: prod.splits completion.splits option.splits)
  next
    case False
    have notSymbol: "\<not> isSymbolValue ct"
      using assms by (cases ct) simp_all
    have run: "resolveComplexClassComponent h ct props cx md branchStatus evaluatedNode s
                 = (case queueNewComponentTree h ct evaluatedNode None None s of
                      (Returns u, t) \<Rightarrow> (Throws (NewComponentTreeBranch evaluatedNode),
                                          snd (setNodeStatus evaluatedNode NEW_TREE t))
                    | (Throws e, t) \<Rightarrow> (Throws e, t)
                    | (Diverges, t) \<Rightarrow> (Diverges, t))"
      using False notRoot
      by (auto simp: resolveComplexClassComponent_def bindM_apply returnM_def throwM_def modifyM_def
          getsM_def setNodeStatus_def split: prod.splits completion.splits option.splits)
    show ?thesis
      unfolding run using False notRoot assms notSymbol
      by (simp add: queueNewComponentTree_def hasEvaluatedRootNode_def setNodeStatus_def
          incDeadEnds_def invariant_def hostRun_def bindM_apply returnM_def throwM_def modifyM_def
          split: prod.splits completion.splits option.splits)
  qed
qed

theorem resolveComplexClassComponent_absorption_witness:
  "isECMAScriptSourceFunctionValue (ECMAScriptSourceFunctionValue 0)
   \<and> resolveComplexClassComponent (tableHost False True) (ECMAScriptSourceFunctionValue 0)
        (ObjectValue 6) (ObjectValue 7) \<lparr>instanceProperties = {''state''}, instanceSymbols = {}\<rparr>
        BRANCH 0 (startWith classTable)
      = (Throws (NewComponentTreeBranch 0),
         (startWith classTable)
           \<lparr>componentTreeState := (componentTreeState (startWith classTable))\<lparr>deadEnds := 1\<rparr>,
            branchedComponentTrees :=
              [\<lparr>br_context = None, br_evaluatedNode = 0, br_props = None,
                br_rootValue = ECMAScriptSourceFunctionValue 0\<rparr>],
            nodes := (nodes (startWith classTable))(0 :=
              (nodes (startWith classTable) 0)\<lparr>node_status := NEW_TREE\<rparr>)\<rparr>)"
proof -
  have esfv: "isECMAScriptSourceFunctionValue (ECMAScriptSourceFunctionValue 0)" by simp
  have start: "status (componentTreeState (startWith classTable)) = SIMPLE"
    "deadEnds (componentTreeState (startWith classTable)) = 0"
    "alreadyEvaluatedRootNodes (startWith classTable) (ECMAScriptSourceFunctionValue 0) = None"
    "branchedComponentTrees (startWith classTable) = []"
    "realm (startWith classTable) = classTable"
    by (simp_all add: run_defs table_defs)
  have host: "h_getComponentTypeFromRootValue (tableHost False True) classTable
                (ECMAScriptSourceFunctionValue 0)
              = (Returns (Some (ECMAScriptSourceFunctionValue 0)), classTable)"
    by (simp add: table_defs)
  have same: "(startWith classTable)\<lparr>realm := classTable\<rparr> = startWith classTable"
    using start(5) by (cases "startWith classTable") simp
  show ?thesis
    using resolveComplexClassComponent_absorption[OF esfv, where h = "tableHost False True"
        and props = "ObjectValue 6" and cx = "ObjectValue 7"
        and md = "\<lparr>instanceProperties = {''state''}, instanceSymbols = {}\<rparr>"
        and branchStatus = BRANCH and evaluatedNode = 0 and s = "startWith classTable"]
      start host
    by (auto simp: Let_def split: prod.splits)
qed

subsection \<open>Folding a root that is in the memoization table\<close>




subsection \<open>The reference count of a context when its provider fails\<close>

text \<open>
  C1. The pairing of the increment with the decrement, and the restoring of the previous
  current value, is what \<open>_resolveContextProviderComponent\<close> does on both of its normal
  exits; nothing does it when an error escapes while the children are resolved. The root
  component of \<open>providerTable\<close> renders a provider whose children are not a valid result of
  a render: resolving them throws an \<open>ExpectedBailOut\<close>, which leaves the provider after the
  increment and before the restore and the decrement. \<open>_resolveReactElement\<close> catches it,
  the fold completes normally and returns its effects, and the count of the context object
  is 1 where it was 0, with the provider's value \<open>v1\<close> still the current value in the
  captured host state. With valid children (\<open>providerTextTable\<close>) the same fold ends with
  the count at 0 and the previous value \<open>default\<close> written back.
\<close>

theorem provider_error_leaves_reference:
  "fst (resolveContextProviderComponent (tableHost False True) (resolveDeeply (tableHost False True) 1)
          (ECMAScriptSourceFunctionValue 0) (ObjectValue 1) (ObjectValue 7) NO_BRANCH 0
          (startWith providerTable))
     = Throws (ExpectedBailOut ''invalid return value from render'')
   \<and> fst (resolveReactComponentTree (tableHost False True) 4 (ECMAScriptSourceFunctionValue 0)
          (Some (ObjectValue 6)) (Some (ObjectValue 7)) 0 (startWith providerTable))
     = Returns (Effects (ObjectValue 1)
         (((ObjectValue 5, ''currentValue''), StringValue ''v1'') # providerTable))
   \<and> referenceCount (startWith providerTable) (ObjectValue 5) = 0
   \<and> referenceCount (snd (resolveReactComponentTree (tableHost False True) 4
          (ECMAScriptSourceFunctionValue 0) (Some (ObjectValue 6)) (Some (ObjectValue 7)) 0
          (startWith providerTable))) (ObjectValue 5) = 1
   \<and> fst (resolveReactComponentTree (tableHost False True) 4 (ECMAScriptSourceFunctionValue 0)
          (Some (ObjectValue 6)) (Some (ObjectValue 7)) 0 (startWith providerTextTable))
     = Returns (Effects (ObjectValue 1)
         (((ObjectValue 5, ''currentValue''), StringValue ''default'')
          # ((ObjectValue 5, ''currentValue''), StringValue ''v1'') # providerTextTable))
   \<and> referenceCount (startWith providerTextTable) (ObjectValue 5) = 0
   \<and> referenceCount (snd (resolveReactComponentTree (tableHost False True) 4
          (ECMAScriptSourceFunctionValue 0) (Some (ObjectValue 6)) (Some (ObjectValue 7)) 0
          (startWith providerTextTable))) (ObjectValue 5) = 0"
  by (simp add: run_defs table_defs providerTable_def providerTextTable_def)

subsection \<open>A render that returns undefined\<close>
































end
